theory Spec2Isabelle
  imports Complex_Main "HOL-Library.Word"
begin

unbundle bit_operations_syntax

section \<open>Numbers and masks\<close>

text \<open>
  The library computes with \<^verbatim>\<open>Math::real\<close>, a floating-point type chosen at build
  time. It is modelled by the mathematical reals of HOL: comparisons and branches are those
  of the source, and the one special value the source produces on purpose, the NaN returned
  by \<^verbatim>\<open>GeodesicLine::Position\<close> on its early exit, is a constructor of its own in the
  result type. Rounding is left out, except in the comparator of intersection points, which
  decides by a threshold on a computed sum: there every arithmetic operation is rounded.
  Capability and output masks are \<^verbatim>\<open>unsigned\<close>, modelled as 32-bit words.
\<close>

type_synonym unsigned = "32 word"

text \<open>\<^verbatim>\<open>enum captype\<close> and \<^verbatim>\<open>enum mask\<close> of class Geodesic (Geodesic.hpp).\<close>

definition CAP_NONE :: unsigned where "CAP_NONE = 0"
definition CAP_C1 :: unsigned where "CAP_C1 = push_bit 0 1"
definition CAP_C1p :: unsigned where "CAP_C1p = push_bit 1 1"
definition CAP_C2 :: unsigned where "CAP_C2 = push_bit 2 1"
definition CAP_C3 :: unsigned where "CAP_C3 = push_bit 3 1"
definition CAP_C4 :: unsigned where "CAP_C4 = push_bit 4 1"
definition CAP_ALL :: unsigned where "CAP_ALL = 0x1F"
definition OUT_ALL :: unsigned where "OUT_ALL = 0x7F80"

definition NONE :: unsigned where "NONE = 0"
definition LATITUDE :: unsigned where "LATITUDE = push_bit 7 1 OR CAP_NONE"
definition LONGITUDE :: unsigned where "LONGITUDE = push_bit 8 1 OR CAP_C3"
definition AZIMUTH :: unsigned where "AZIMUTH = push_bit 9 1 OR CAP_NONE"
definition DISTANCE :: unsigned where "DISTANCE = push_bit 10 1 OR CAP_C1"
definition DISTANCE_IN :: unsigned where "DISTANCE_IN = push_bit 11 1 OR CAP_C1 OR CAP_C1p"
definition REDUCEDLENGTH :: unsigned where "REDUCEDLENGTH = push_bit 12 1 OR CAP_C1 OR CAP_C2"
definition GEODESICSCALE :: unsigned where "GEODESICSCALE = push_bit 13 1 OR CAP_C1 OR CAP_C2"
definition AREA :: unsigned where "AREA = push_bit 14 1 OR CAP_C4"
text \<open>The enumerator \<^verbatim>\<open>ALL\<close>; the bare name is taken by the quantifier syntax.\<close>
definition ALL_mask :: unsigned where "ALL_mask = OUT_ALL OR CAP_ALL"

text \<open>\<^verbatim>\<open>static const unsigned maxit = 50\<close> (Geodesic.hpp).\<close>

definition maxit :: nat where "maxit = 50"

section \<open>Angle utilities (Geodesic.hpp)\<close>

definition sq :: "real \<Rightarrow> real" where
  "sq v = v * v"

text \<open>Place angle in [-180, 180). Assumes the argument is in [-540, 540).\<close>

definition AngNormalize :: "real \<Rightarrow> real" where
  "AngNormalize v = (if v \<ge> 180 then v - 360 else if v < -180 then v + 360 else v)"

text \<open>
  The source keeps the intermediate in a volatile so that the compiler does not fold
  \<^verbatim>\<open>z - (z - y)\<close>; the two subtractions are kept here as written.
\<close>

definition AngRound :: "real \<Rightarrow> real" where
  "AngRound v =
    (let z = 0.0625;
         y0 = \<bar>v\<bar>;
         y1 = (if y0 < z then z - (z - y0) else y0)
     in if v < 0 then - y1 else y1)"

text \<open>
  \<^verbatim>\<open>Math::hypot\<close>, \<^verbatim>\<open>Constants::degree()\<close> and \<^verbatim>\<open>atan2\<close> come from Math.hpp,
  Constants.hpp and the C library, none of which is among the sources; they are given their
  mathematical meaning (the specification's \<open>\<sigma>\<^sub>1\<^sub>2 = a\<^sub>1\<^sub>2 \<pi> / 180\<close> fixes the degree).
  The reals have one zero: where the C function tells \<^verbatim>\<open>atan2(+0, u)\<close> from
  \<^verbatim>\<open>atan2(-0, u)\<close> for a negative \<open>u\<close> (\<open>\<pi>\<close> and \<open>-\<pi>\<close>), the function below
  has the single value \<open>\<pi>\<close>.
\<close>

definition hypot :: "real \<Rightarrow> real \<Rightarrow> real" where
  "hypot u v = sqrt (u * u + v * v)"

definition degree :: real where
  "degree = pi / 180"

definition atan2 :: "real \<Rightarrow> real \<Rightarrow> real" where
  "atan2 v u =
    (if 0 < u then arctan (v / u)
     else if u < 0 then (if 0 \<le> v then arctan (v / u) + pi else arctan (v / u) - pi)
     else if 0 < v then pi / 2
     else if v < 0 then - (pi / 2)
     else 0)"

text \<open>\<^verbatim>\<open>SinCosNorm\<close> updates both references; the model returns the pair.\<close>

definition SinCosNorm :: "real \<times> real \<Rightarrow> real \<times> real" where
  "SinCosNorm sc = (let r = hypot (fst sc) (snd sc) in (fst sc / r, snd sc / r))"

section \<open>Intersection points (Intersect.hpp)\<close>

text \<open>Class \<^verbatim>\<open>XPoint\<close>: members \<^verbatim>\<open>x\<close>, \<^verbatim>\<open>y\<close> and \<^verbatim>\<open>c\<close>.\<close>

record XPoint =
  xp_x :: real
  xp_y :: real
  xp_c :: int

text \<open>
  The coordinates are \<^verbatim>\<open>Math::real\<close> numbers and the comparator decides by a threshold,
  so here the rounding of the arithmetic matters: the result of each subtraction and of the
  addition is rounded to \<^verbatim>\<open>Math::real\<close>. The rounding (fixed by the build, in Math.hpp)
  is the parameter \<open>fl\<close> of the three functions below; \<^verbatim>\<open>fabs\<close> and the comparisons
  are exact. Results are taken to be finite.
\<close>

text \<open>The L1 distance: \<^verbatim>\<open>fabs(x) + fabs(y)\<close>.\<close>

definition d1 :: "(real \<Rightarrow> real) \<Rightarrow> real \<Rightarrow> real \<Rightarrow> real" where
  "d1 fl u v = fl (\<bar>u\<bar> + \<bar>v\<bar>)"

text \<open>
  Class \<^verbatim>\<open>SetComp\<close>; its member \<^verbatim>\<open>_slop\<close> is the second argument. The arguments
  \<^verbatim>\<open>p.x - q.x\<close> and \<^verbatim>\<open>p.y - q.y\<close> of \<^verbatim>\<open>d1\<close> are rounded differences.
\<close>

definition SetComp_eq :: "(real \<Rightarrow> real) \<Rightarrow> real \<Rightarrow> XPoint \<Rightarrow> XPoint \<Rightarrow> bool" where
  "SetComp_eq fl slop p q =
    (d1 fl (fl (xp_x p - xp_x q)) (fl (xp_y p - xp_y q)) \<le> slop)"

definition SetComp :: "(real \<Rightarrow> real) \<Rightarrow> real \<Rightarrow> XPoint \<Rightarrow> XPoint \<Rightarrow> bool" where
  "SetComp fl slop p q =
    (\<not> SetComp_eq fl slop p q \<and>
     (if xp_x p \<noteq> xp_x q then xp_x p < xp_x q else xp_y p < xp_y q))"

text \<open>
  The rounding of the default build, where \<^verbatim>\<open>Math::real\<close> is \<^verbatim>\<open>double\<close>: to the
  nearest number with a significand of 53 bits, a tie going to the even significand. The
  exponent is not bounded here; a sum or difference of two doubles that is too small for a
  normal double is a double itself and is left as it is by this function as well, and
  overflow is left out.
\<close>

definition round_even :: "real \<Rightarrow> int" where
  "round_even m =
    (let f = \<lfloor>m\<rfloor>; d = m - real_of_int f
     in if d < 1 / 2 then f else if 1 / 2 < d then f + 1 else if even f then f else f + 1)"

definition round_double :: "real \<Rightarrow> real" where
  "round_double v =
    (if v = 0 then 0
     else (let e = \<lfloor>log 2 \<bar>v\<bar>\<rfloor>;
               ulp = 2 powr (real_of_int e - 52)
           in ulp * real_of_int (round_even (v / ulp))))"

definition segmentmode :: "real \<Rightarrow> real \<Rightarrow> XPoint \<Rightarrow> int" where
  "segmentmode sx sy p =
    (if xp_x p < 0 then -1 else if xp_x p \<le> sx then 0 else 1) * 3
    + (if xp_y p < 0 then -1 else if xp_y p \<le> sy then 0 else 1)"

section \<open>The ellipsoid and the geodesic line (Geodesic.hpp, GeodesicLine.cpp)\<close>

text \<open>
  The data members of class Geodesic that GeodesicLine reads, under the names of the
  source without the leading underscore, prefixed by \<open>g_\<close>.
\<close>

record Geodesic =
  g_a :: real
  g_r :: real
  g_f :: real
  g_f1 :: real
  g_e2 :: real
  g_ep2 :: real
  g_n :: real
  g_b :: real
  g_c2 :: real
  g_etol2 :: real
  g_A3x :: "real list"
  g_C3x :: "real list"
  g_C4x :: "real list"

text \<open>
  The data members of class GeodesicLine, as the constructor in GeodesicLine.cpp assigns
  them (the class declaration, GeodesicLine.hpp, is not among the sources), prefixed
  by \<open>l_\<close>. Arrays are lists.
\<close>

record GeodesicLine =
  l_a :: real
  l_r :: real
  l_b :: real
  l_c2 :: real
  l_f1 :: real
  l_caps :: unsigned
  l_lat1 :: real
  l_lon1 :: real
  l_azi1 :: real
  l_salp1 :: real
  l_calp1 :: real
  l_salp0 :: real
  l_calp0 :: real
  l_ssig1 :: real
  l_somg1 :: real
  l_csig1 :: real
  l_comg1 :: real
  l_k2 :: real
  l_A1m1 :: real
  l_C1a :: "real list"
  l_B11 :: real
  l_stau1 :: real
  l_ctau1 :: real
  l_C1pa :: "real list"
  l_A2m1 :: real
  l_C2a :: "real list"
  l_B21 :: real
  l_C3a :: "real list"
  l_A3c :: real
  l_B31 :: real
  l_C4a :: "real list"
  l_A4 :: real
  l_B41 :: real

text \<open>
  What GeodesicLine.cpp uses and the sources only declare: the constant
  \<^verbatim>\<open>Geodesic::eps2\<close>, the build-time precision \<^verbatim>\<open>GEOGRAPHICLIB_PREC\<close>, the series
  functions of Geodesic.cpp and \<^verbatim>\<open>GeodesicLine::Init\<close> of GeodesicLine.hpp. They are
  parameters of the model. A function that fills an array takes the array's old contents
  and returns the new ones.
\<close>

record Externals =
  eps2 :: real
  GEOGRAPHICLIB_PREC :: int
  SinCosSeries :: "bool \<Rightarrow> real \<Rightarrow> real \<Rightarrow> real list \<Rightarrow> int \<Rightarrow> real"
  A1m1f :: "real \<Rightarrow> real"
  C1f :: "real \<Rightarrow> real list \<Rightarrow> real list"
  C1pf :: "real \<Rightarrow> real list \<Rightarrow> real list"
  A2m1f :: "real \<Rightarrow> real"
  C2f :: "real \<Rightarrow> real list \<Rightarrow> real list"
  A3f :: "Geodesic \<Rightarrow> real \<Rightarrow> real"
  C3f :: "Geodesic \<Rightarrow> real \<Rightarrow> real list \<Rightarrow> real list"
  C4f :: "Geodesic \<Rightarrow> real \<Rightarrow> real list \<Rightarrow> real list"
  Init :: "GeodesicLine \<Rightarrow> bool"

text \<open>The macro \<^verbatim>\<open>GEOD_ORD\<close> and the orders \<^verbatim>\<open>nC1\<close>, ... derived from it.\<close>

definition GEOD_ORD :: "Externals \<Rightarrow> int" where
  "GEOD_ORD E =
    (if GEOGRAPHICLIB_PREC E = 1 then 6 else if GEOGRAPHICLIB_PREC E = 0 then 3 else 7)"

definition nC1 :: "Externals \<Rightarrow> int" where "nC1 E = GEOD_ORD E"
definition nC1p :: "Externals \<Rightarrow> int" where "nC1p E = GEOD_ORD E"
definition nC2 :: "Externals \<Rightarrow> int" where "nC2 E = GEOD_ORD E"
definition nC3 :: "Externals \<Rightarrow> int" where "nC3 E = GEOD_ORD E"
definition nC4 :: "Externals \<Rightarrow> int" where "nC4 E = GEOD_ORD E"

subsection \<open>The constructor\<close>

text \<open>
  Lines 64 to 68: the sine and cosine of the reduced latitude before normalisation, with
  the cosine replaced by eps2 at the poles; line 69 normalises the pair.
\<close>

definition ctor_bet1_raw :: "real \<Rightarrow> real \<Rightarrow> real \<Rightarrow> real \<times> real" where
  "ctor_bet1_raw eps2v f1 lat1 =
    (let phi = lat1 * degree;
         sbet1 = f1 * sin phi;
         cbet1 = (if \<bar>lat1\<bar> = 90 then eps2v else cos phi)
     in (sbet1, cbet1))"

definition ctor_bet1 :: "real \<Rightarrow> real \<Rightarrow> real \<Rightarrow> real \<times> real" where
  "ctor_bet1 eps2v f1 lat1 = SinCosNorm (ctor_bet1_raw eps2v f1 lat1)"

text \<open>The five blocks guarded by the capability bits (lines 93 to 125).\<close>

definition ctor_C1 :: "Externals \<Rightarrow> real \<Rightarrow> GeodesicLine \<Rightarrow> GeodesicLine" where
  "ctor_C1 E eps this =
    (if l_caps this AND CAP_C1 \<noteq> 0 then
       (let A1m1 = A1m1f E eps;
            C1a = C1f E eps (l_C1a this);
            B11 = SinCosSeries E True (l_ssig1 this) (l_csig1 this) C1a (nC1 E);
            s = sin B11;
            c = cos B11
        in this\<lparr>l_A1m1 := A1m1, l_C1a := C1a, l_B11 := B11,
                l_stau1 := l_ssig1 this * c + l_csig1 this * s,
                l_ctau1 := l_csig1 this * c - l_ssig1 this * s\<rparr>)
     else this)"

definition ctor_C1p :: "Externals \<Rightarrow> real \<Rightarrow> GeodesicLine \<Rightarrow> GeodesicLine" where
  "ctor_C1p E eps this =
    (if l_caps this AND CAP_C1p \<noteq> 0 then this\<lparr>l_C1pa := C1pf E eps (l_C1pa this)\<rparr>
     else this)"

definition ctor_C2 :: "Externals \<Rightarrow> real \<Rightarrow> GeodesicLine \<Rightarrow> GeodesicLine" where
  "ctor_C2 E eps this =
    (if l_caps this AND CAP_C2 \<noteq> 0 then
       (let A2m1 = A2m1f E eps;
            C2a = C2f E eps (l_C2a this);
            B21 = SinCosSeries E True (l_ssig1 this) (l_csig1 this) C2a (nC2 E)
        in this\<lparr>l_A2m1 := A2m1, l_C2a := C2a, l_B21 := B21\<rparr>)
     else this)"

definition ctor_C3 :: "Externals \<Rightarrow> Geodesic \<Rightarrow> real \<Rightarrow> GeodesicLine \<Rightarrow> GeodesicLine" where
  "ctor_C3 E g eps this =
    (if l_caps this AND CAP_C3 \<noteq> 0 then
       (let C3a = C3f E g eps (l_C3a this);
            A3c = - g_f g * l_salp0 this * A3f E g eps;
            B31 = SinCosSeries E True (l_ssig1 this) (l_csig1 this) C3a (nC3 E - 1)
        in this\<lparr>l_C3a := C3a, l_A3c := A3c, l_B31 := B31\<rparr>)
     else this)"

definition ctor_C4 :: "Externals \<Rightarrow> Geodesic \<Rightarrow> GeodesicLine \<Rightarrow> GeodesicLine" where
  "ctor_C4 E g this =
    (if l_caps this AND CAP_C4 \<noteq> 0 then
       (let C4a = C4f E g (l_k2 this) (l_C4a this);
            A4 = sq (g_a g) * l_calp0 this * l_salp0 this * g_e2 g;
            B41 = SinCosSeries E False (l_ssig1 this) (l_csig1 this) C4a (nC4 E)
        in this\<lparr>l_C4a := C4a, l_A4 := A4, l_B41 := B41\<rparr>)
     else this)"

text \<open>
  \<^verbatim>\<open>GeodesicLine::GeodesicLine(g, lat1, lon1, azi1, caps)\<close>, lines 40 to 90: the
  members assigned whatever the capabilities. The last argument is the object's storage
  before construction: a member that the constructor does not assign (because its
  capability bit is absent) keeps whatever the storage held.
\<close>

definition ctor_base ::
  "Externals \<Rightarrow> Geodesic \<Rightarrow> real \<Rightarrow> real \<Rightarrow> real \<Rightarrow> unsigned \<Rightarrow> GeodesicLine \<Rightarrow> GeodesicLine" where
  "ctor_base E g lat1 lon1 azi1 caps storage =
    (let this = storage\<lparr>l_a := g_a g, l_r := g_r g, l_b := g_b g, l_c2 := g_c2 g,
                         l_f1 := g_f1 g, l_caps := caps OR LATITUDE OR AZIMUTH\<rparr>;
         azi1 = AngNormalize azi1;
         azi1 = AngRound azi1;
         lon1 = AngNormalize lon1;
         alp1 = azi1 * degree;
         salp1 = (if azi1 = -180 then 0 else sin alp1);
         calp1 = (if \<bar>azi1\<bar> = 90 then 0 else cos alp1);
         (sbet1, cbet1) = ctor_bet1 (eps2 E) (l_f1 this) lat1;
         salp0 = salp1 * cbet1;
         calp0 = hypot calp1 (salp1 * sbet1);
         ssig1 = sbet1;
         somg1 = salp0 * sbet1;
         csig1 = (if sbet1 \<noteq> 0 \<or> calp1 \<noteq> 0 then cbet1 * calp1 else 1);
         comg1 = csig1;
         (ssig1, csig1) = SinCosNorm (ssig1, csig1);
         (somg1, comg1) = SinCosNorm (somg1, comg1);
         k2 = sq calp0 * g_ep2 g
     in this\<lparr>l_lat1 := lat1, l_lon1 := lon1, l_azi1 := azi1,
              l_salp1 := salp1, l_calp1 := calp1,
              l_salp0 := salp0, l_calp0 := calp0,
              l_ssig1 := ssig1, l_somg1 := somg1,
              l_csig1 := csig1, l_comg1 := comg1, l_k2 := k2\<rparr>)"

text \<open>The whole constructor: line 91 and the five guarded blocks follow.\<close>

definition GeodesicLine_ctor ::
  "Externals \<Rightarrow> Geodesic \<Rightarrow> real \<Rightarrow> real \<Rightarrow> real \<Rightarrow> unsigned \<Rightarrow> GeodesicLine \<Rightarrow> GeodesicLine" where
  "GeodesicLine_ctor E g lat1 lon1 azi1 caps storage =
    (let this = ctor_base E g lat1 lon1 azi1 caps storage;
         eps = l_k2 this / (2 * (1 + sqrt (1 + l_k2 this)) + l_k2 this)
     in ctor_C4 E g (ctor_C3 E g eps (ctor_C2 E eps (ctor_C1p E eps (ctor_C1 E eps this)))))"

subsection \<open>Position\<close>

text \<open>
  The value \<^verbatim>\<open>GeodesicLine::Position\<close> returns: \<^verbatim>\<open>Math::NaN()\<close> or a number.
\<close>

datatype real_result = NaN | Finite real

text \<open>
  The eight reference parameters \<^verbatim>\<open>lat2, lon2, azi2, s12, m12, M12, M21, S12\<close>, taken
  to be eight distinct variables of the caller: the model receives their contents and
  returns the contents after the call.
\<close>

record outputs =
  o_lat2 :: real
  o_lon2 :: real
  o_azi2 :: real
  o_s12 :: real
  o_m12 :: real
  o_M12 :: real
  o_M21 :: real
  o_S12 :: real

text \<open>The local variables of Position that its output blocks read.\<close>

record Position_vars =
  v_sig12 :: real
  v_ssig12 :: real
  v_csig12 :: real
  v_B12 :: real
  v_AB1 :: real
  v_ssig2 :: real
  v_csig2 :: real
  v_sbet2 :: real
  v_cbet2 :: real
  v_somg2 :: real
  v_comg2 :: real
  v_salp2 :: real
  v_calp2 :: real
  v_omg12 :: real

text \<open>Lines 141 to 162: \<open>(sig12, ssig12, csig12, B12)\<close> from the arc length or the distance.\<close>

definition Position_sig12 ::
  "Externals \<Rightarrow> GeodesicLine \<Rightarrow> bool \<Rightarrow> real \<Rightarrow> real \<times> real \<times> real \<times> real" where
  "Position_sig12 E l arcmode a12 =
    (if arcmode then
       (let sig12 = a12 * degree;
            s12a = \<bar>a12\<bar>;
            s12a = s12a - 180 * real_of_int \<lfloor>s12a / 180\<rfloor>;
            ssig12 = (if s12a = 0 then 0 else sin sig12);
            csig12 = (if s12a = 90 then 0 else cos sig12)
        in (sig12, ssig12, csig12, 0))
     else
       (let tau12 = a12 / (l_b l * (1 + l_A1m1 l));
            s = sin tau12;
            c = cos tau12;
            B12 = - SinCosSeries E True (l_stau1 l * c + l_ctau1 l * s)
                      (l_ctau1 l * c - l_stau1 l * s) (l_C1pa l) (nC1p E);
            sig12 = tau12 - (B12 - l_B11 l)
        in (sig12, sin sig12, cos sig12, B12)))"

text \<open>Lines 141 to 187; \<open>outmask\<close> is the mask after line 135.\<close>

definition Position_locals ::
  "Externals \<Rightarrow> GeodesicLine \<Rightarrow> bool \<Rightarrow> real \<Rightarrow> unsigned \<Rightarrow> Position_vars" where
  "Position_locals E l arcmode a12 outmask =
    (let (sig12, ssig12, csig12, B12) = Position_sig12 E l arcmode a12;
         AB1 = 0;
         ssig2 = l_ssig1 l * csig12 + l_csig1 l * ssig12;
         csig2 = l_csig1 l * csig12 - l_ssig1 l * ssig12;
         (B12, AB1) =
           (if outmask AND (DISTANCE OR REDUCEDLENGTH OR GEODESICSCALE) \<noteq> 0 then
              (let B12 = (if arcmode then SinCosSeries E True ssig2 csig2 (l_C1a l) (nC1 E)
                          else B12)
               in (B12, (1 + l_A1m1 l) * (B12 - l_B11 l)))
            else (B12, AB1));
         sbet2 = l_calp0 l * ssig2;
         cbet2 = hypot (l_salp0 l) (l_calp0 l * csig2);
         (cbet2, csig2) = (if cbet2 = 0 then (eps2 E, eps2 E) else (cbet2, csig2));
         somg2 = l_salp0 l * ssig2;
         comg2 = csig2;
         salp2 = l_salp0 l;
         calp2 = l_calp0 l * csig2;
         omg12 = atan2 (somg2 * l_comg1 l - comg2 * l_somg1 l)
                       (comg2 * l_comg1 l + somg2 * l_somg1 l)
     in \<lparr>v_sig12 = sig12, v_ssig12 = ssig12, v_csig12 = csig12, v_B12 = B12, v_AB1 = AB1,
         v_ssig2 = ssig2, v_csig2 = csig2, v_sbet2 = sbet2, v_cbet2 = cbet2,
         v_somg2 = somg2, v_comg2 = comg2, v_salp2 = salp2, v_calp2 = calp2,
         v_omg12 = omg12\<rparr>)"

text \<open>Lines 189 and 190.\<close>

definition Position_s12 ::
  "GeodesicLine \<Rightarrow> bool \<Rightarrow> real \<Rightarrow> unsigned \<Rightarrow> Position_vars \<Rightarrow> outputs \<Rightarrow> outputs" where
  "Position_s12 l arcmode a12 outmask V out =
    (if outmask AND DISTANCE \<noteq> 0 then
       out\<lparr>o_s12 := (if arcmode then l_b l * ((1 + l_A1m1 l) * v_sig12 V + v_AB1 V)
                      else a12)\<rparr>
     else out)"

text \<open>Lines 192 to 201.\<close>

definition Position_lon2 ::
  "Externals \<Rightarrow> GeodesicLine \<Rightarrow> unsigned \<Rightarrow> Position_vars \<Rightarrow> outputs \<Rightarrow> outputs" where
  "Position_lon2 E l outmask V out =
    (if outmask AND LONGITUDE \<noteq> 0 then
       (let lam12 = v_omg12 V + l_A3c l *
              (v_sig12 V + (SinCosSeries E True (v_ssig2 V) (v_csig2 V) (l_C3a l) (nC3 E - 1)
                            - l_B31 l));
            lon12 = lam12 / degree;
            lon12 = lon12 - 360 * real_of_int \<lfloor>lon12 / 360 + 0.5\<rfloor>
        in out\<lparr>o_lon2 := AngNormalize (l_lon1 l + lon12)\<rparr>)
     else out)"

text \<open>Lines 203 and 204.\<close>

definition Position_lat2 ::
  "GeodesicLine \<Rightarrow> unsigned \<Rightarrow> Position_vars \<Rightarrow> outputs \<Rightarrow> outputs" where
  "Position_lat2 l outmask V out =
    (if outmask AND LATITUDE \<noteq> 0 then
       out\<lparr>o_lat2 := atan2 (v_sbet2 V) (l_f1 l * v_cbet2 V) / degree\<rparr>
     else out)"

text \<open>Lines 206 to 208.\<close>

definition Position_azi2 :: "unsigned \<Rightarrow> Position_vars \<Rightarrow> outputs \<Rightarrow> outputs" where
  "Position_azi2 outmask V out =
    (if outmask AND AZIMUTH \<noteq> 0 then
       out\<lparr>o_azi2 := 0 - atan2 (- v_salp2 V) (v_calp2 V) / degree\<rparr>
     else out)"

text \<open>Lines 210 to 230.\<close>

definition Position_m12 ::
  "Externals \<Rightarrow> GeodesicLine \<Rightarrow> unsigned \<Rightarrow> Position_vars \<Rightarrow> outputs \<Rightarrow> outputs" where
  "Position_m12 E l outmask V out =
    (if outmask AND (REDUCEDLENGTH OR GEODESICSCALE) \<noteq> 0 then
       (let ssig1sq = sq (l_ssig1 l);
            ssig2sq = sq (v_ssig2 V);
            w1 = sqrt (1 + l_k2 l * ssig1sq);
            w2 = sqrt (1 + l_k2 l * ssig2sq);
            B22 = SinCosSeries E True (v_ssig2 V) (v_csig2 V) (l_C2a l) (nC2 E);
            AB2 = (1 + l_A2m1 l) * (B22 - l_B21 l);
            J12 = (l_A1m1 l - l_A2m1 l) * v_sig12 V + (v_AB1 V - AB2);
            out = (if outmask AND REDUCEDLENGTH \<noteq> 0 then
                     out\<lparr>o_m12 := l_b l * ((w2 * (l_csig1 l * v_ssig2 V)
                                              - w1 * (l_ssig1 l * v_csig2 V))
                                             - l_csig1 l * v_csig2 V * J12)\<rparr>
                   else out);
            out = (if outmask AND GEODESICSCALE \<noteq> 0 then
                     out\<lparr>o_M12 := v_csig12 V
                              + (l_k2 l * (ssig2sq - ssig1sq) * v_ssig2 V / (w1 + w2)
                                 - v_csig2 V * J12) * l_ssig1 l / w1,
                          o_M21 := v_csig12 V
                              - (l_k2 l * (ssig2sq - ssig1sq) * l_ssig1 l / (w1 + w2)
                                 - l_csig1 l * J12) * v_ssig2 V / w2\<rparr>
                   else out)
        in out)
     else out)"

text \<open>Lines 232 to 246.\<close>

definition Position_S12 ::
  "Externals \<Rightarrow> GeodesicLine \<Rightarrow> unsigned \<Rightarrow> Position_vars \<Rightarrow> outputs \<Rightarrow> outputs" where
  "Position_S12 E l outmask V out =
    (if outmask AND AREA \<noteq> 0 then
       (let B42 = SinCosSeries E False (v_ssig2 V) (v_csig2 V) (l_C4a l) (nC4 E);
            salp12 = v_salp2 V * l_calp1 l - v_calp2 V * l_salp1 l;
            calp12 = v_calp2 V * l_calp1 l + v_salp2 V * l_salp1 l;
            (salp12, calp12) =
              (if salp12 = 0 \<and> calp12 < 0 then (eps2 E * l_calp1 l, -1)
               else (salp12, calp12))
        in out\<lparr>o_S12 := l_c2 l * atan2 salp12 calp12 + l_A4 l * (B42 - l_B41 l)\<rparr>)
     else out)"

text \<open>
  \<^verbatim>\<open>GeodesicLine::Position(arcmode, a12, outmask, lat2, lon2, azi2, s12, m12, M12, M21, S12)\<close>:
  the returned value and the contents of the reference parameters after the call. The
  function is declared \<^verbatim>\<open>throw()\<close>; it has no other way out than the two returns.
\<close>

definition Position ::
  "Externals \<Rightarrow> GeodesicLine \<Rightarrow> bool \<Rightarrow> real \<Rightarrow> unsigned \<Rightarrow> outputs \<Rightarrow> real_result \<times> outputs" where
  "Position E l arcmode a12 outmask0 out =
    (let outmask = outmask0 AND (l_caps l AND OUT_ALL) in
     if \<not> (Init E l \<and> (arcmode \<or> (l_caps l AND DISTANCE_IN) AND OUT_ALL \<noteq> 0)) then
       (NaN, out)
     else
       (let V = Position_locals E l arcmode a12 outmask;
            out = Position_s12 l arcmode a12 outmask V out;
            out = Position_lon2 E l outmask V out;
            out = Position_lat2 l outmask V out;
            out = Position_azi2 outmask V out;
            out = Position_m12 E l outmask V out;
            out = Position_S12 E l outmask V out
        in (Finite (if arcmode then a12 else v_sig12 V / degree), out)))"

section \<open>The inverse problem on non-convergence\<close>

text \<open>
  Modelled from the spec: the body of \<^verbatim>\<open>Geodesic::Inverse\<close> (Geodesic.cpp) is not among
  the sources; Geodesic.hpp declares the function, documents it, and fixes \<open>maxit\<close>.
  The definitions below follow section 4.4 of the specification (step 5, step 6 and the
  sentence on failure to converge) and the documentation comment of the declaration:
  a Newton iteration on \<open>\<alpha>\<^sub>1\<close> whose residual \<open>\<lambda>(\<alpha>\<^sub>1) - \<Delta>\<lambda>\<close> and derivative come from
  \<open>Lambda12\<close>, at most \<open>maxit\<close> steps, each bounding \<open>\<alpha>\<^sub>1\<close> into \<open>[0, \<pi>]\<close>, accepted when the
  update falls below the tolerance; then the outputs are computed from the last \<open>\<alpha>\<^sub>1\<close>,
  and on failure to converge the magnitudes \<open>s12\<close>, \<open>m12\<close>, \<open>a12\<close> are negated and the
  azimuths reversed. \<open>Lambda12\<close>, the tolerance and the computation of the outputs are
  parameters.
\<close>

record inverse_result =
  r_a12 :: real
  r_s12 :: real
  r_azi1 :: real
  r_azi2 :: real
  r_m12 :: real

definition Newton_dalp1 :: "(real \<Rightarrow> real \<times> real) \<Rightarrow> real \<Rightarrow> real \<Rightarrow> real" where
  "Newton_dalp1 Lambda12 lam12 alp1 =
    (let (lam, dlam) = Lambda12 alp1 in - (lam - lam12) / dlam)"

definition Newton_step :: "(real \<Rightarrow> real \<times> real) \<Rightarrow> real \<Rightarrow> real \<Rightarrow> real" where
  "Newton_step Lambda12 lam12 alp1 =
    max 0 (min pi (alp1 + Newton_dalp1 Lambda12 lam12 alp1))"

text \<open>The iteration with its step budget: the last \<open>\<alpha>\<^sub>1\<close> and whether a step was accepted.\<close>

fun Newton :: "(real \<Rightarrow> real \<times> real) \<Rightarrow> real \<Rightarrow> real \<Rightarrow> nat \<Rightarrow> real \<Rightarrow> real \<times> bool" where
  "Newton Lambda12 lam12 tol 0 alp1 = (alp1, False)"
| "Newton Lambda12 lam12 tol (Suc n) alp1 =
    (if \<bar>Newton_dalp1 Lambda12 lam12 alp1\<bar> < tol
     then (Newton_step Lambda12 lam12 alp1, True)
     else Newton Lambda12 lam12 tol n (Newton_step Lambda12 lam12 alp1))"

text \<open>The azimuth of the opposite direction, in [-180, 180).\<close>

definition reverse_azimuth :: "real \<Rightarrow> real" where
  "reverse_azimuth azi = AngNormalize (azi + 180)"

definition signal_divergence :: "inverse_result \<Rightarrow> inverse_result" where
  "signal_divergence r =
    \<lparr>r_a12 = - r_a12 r, r_s12 = - r_s12 r,
     r_azi1 = reverse_azimuth (r_azi1 r), r_azi2 = reverse_azimuth (r_azi2 r),
     r_m12 = - r_m12 r\<rparr>"

definition Inverse_spec ::
  "(real \<Rightarrow> real \<times> real) \<Rightarrow> (real \<Rightarrow> inverse_result) \<Rightarrow> real \<Rightarrow> real \<Rightarrow> real \<Rightarrow> inverse_result" where
  "Inverse_spec Lambda12 outputs_at lam12 tol alp1 =
    (let (alp1, converged) = Newton Lambda12 lam12 tol maxit alp1;
         r = outputs_at alp1
     in if converged then r else signal_divergence r)"

section \<open>A concrete line\<close>

text \<open>
  An instance on which the model is evaluated: a sphere of the Earth's equatorial radius.
  On a sphere the expansion parameter is 0; the instance takes every series to vanish,
  \<open>eps2\<close> as the square root of the smallest normalised double, and \<open>Init\<close> to hold of the
  lines whose capability mask is not empty. The members of the ellipsoid that GeodesicLine
  never reads are zero or empty, as is the storage the line is constructed in (which,
  taken as a line itself, is the uninitialised line: its capability mask is empty).
\<close>

definition sphere :: Geodesic where
  "sphere = \<lparr>g_a = 6378137, g_r = 0, g_f = 0, g_f1 = 1, g_e2 = 0, g_ep2 = 0, g_n = 0,
             g_b = 6378137, g_c2 = 6378137 * 6378137, g_etol2 = 0,
             g_A3x = [], g_C3x = [], g_C4x = []\<rparr>"

definition sphere_externals :: Externals where
  "sphere_externals =
    \<lparr>eps2 = 1 / 2 ^ 511, GEOGRAPHICLIB_PREC = 1,
     SinCosSeries = (\<lambda>sinp sinx cosx cs n. 0),
     A1m1f = (\<lambda>eps. 0), C1f = (\<lambda>eps cs. replicate 7 0), C1pf = (\<lambda>eps cs. replicate 7 0),
     A2m1f = (\<lambda>eps. 0), C2f = (\<lambda>eps cs. replicate 7 0),
     A3f = (\<lambda>g eps. 1), C3f = (\<lambda>g eps cs. replicate 6 0),
     C4f = (\<lambda>g k2 cs. replicate 6 0),
     Init = (\<lambda>l. l_caps l \<noteq> 0)\<rparr>"

definition blank_storage :: GeodesicLine where
  "blank_storage =
    \<lparr>l_a = 0, l_r = 0, l_b = 0, l_c2 = 0, l_f1 = 0, l_caps = 0, l_lat1 = 0, l_lon1 = 0,
     l_azi1 = 0, l_salp1 = 0, l_calp1 = 0, l_salp0 = 0, l_calp0 = 0, l_ssig1 = 0,
     l_somg1 = 0, l_csig1 = 0, l_comg1 = 0, l_k2 = 0, l_A1m1 = 0, l_C1a = [], l_B11 = 0,
     l_stau1 = 0, l_ctau1 = 0, l_C1pa = [], l_A2m1 = 0, l_C2a = [], l_B21 = 0, l_C3a = [],
     l_A3c = 0, l_B31 = 0, l_C4a = [], l_A4 = 0, l_B41 = 0\<rparr>"

text \<open>The caller's eight output variables before a call, each holding 999.\<close>

definition stale_outputs :: outputs where
  "stale_outputs =
    \<lparr>o_lat2 = 999, o_lon2 = 999, o_azi2 = 999, o_s12 = 999, o_m12 = 999, o_M12 = 999,
     o_M21 = 999, o_S12 = 999\<rparr>"

text \<open>The line through latitude 0, longitude 0 heading north, built with capability caps.\<close>

definition north_line :: "unsigned \<Rightarrow> GeodesicLine" where
  "north_line caps = GeodesicLine_ctor sphere_externals sphere 0 0 0 caps blank_storage"

section \<open>Mask arithmetic\<close>

lemmas mask_defs = CAP_NONE_def CAP_C1_def CAP_C1p_def CAP_C2_def CAP_C3_def CAP_C4_def
  CAP_ALL_def OUT_ALL_def NONE_def LATITUDE_def LONGITUDE_def AZIMUTH_def DISTANCE_def
  DISTANCE_IN_def REDUCEDLENGTH_def GEODESICSCALE_def AREA_def ALL_mask_def

text \<open>
  Every output mask has one bit inside \<open>OUT_ALL\<close>: bit 7 for LATITUDE, 8 for LONGITUDE,
  9 for AZIMUTH, 10 for DISTANCE, 11 for DISTANCE_IN, 12 for REDUCEDLENGTH, 13 for
  GEODESICSCALE and 14 for AREA. After line 135 of GeodesicLine.cpp a test
  \<^verbatim>\<open>outmask & M\<close> succeeds exactly when that bit of \<open>M\<close> is set both in the mask the
  caller passed and in the capabilities of the line.
\<close>

lemma output_bits:
  "OUT_ALL AND LATITUDE = 2 ^ 7" "OUT_ALL AND LONGITUDE = 2 ^ 8" "OUT_ALL AND AZIMUTH = 2 ^ 9"
  "OUT_ALL AND DISTANCE = 2 ^ 10" "OUT_ALL AND DISTANCE_IN = 2 ^ 11"
  "OUT_ALL AND REDUCEDLENGTH = 2 ^ 12" "OUT_ALL AND GEODESICSCALE = 2 ^ 13"
  "OUT_ALL AND AREA = 2 ^ 14"
  by (simp_all add: mask_defs)

lemma gate_bit:
  assumes "OUT_ALL AND m = 2 ^ n"
  shows "((w AND (c AND OUT_ALL)) AND m \<noteq> 0) = (bit w n \<and> bit c n)"
proof -
  have "(w AND (c AND OUT_ALL)) AND m = (w AND c) AND (OUT_ALL AND m)"
    by (simp add: ac_simps)
  then have e: "(w AND (c AND OUT_ALL)) AND m = (w AND c) AND 2 ^ n"
    using assms by simp
  show ?thesis
    unfolding e and_exp_eq_0_iff_not_bit by (simp add: bit_and_iff)
qed

lemma gate_LATITUDE: "((w AND (c AND OUT_ALL)) AND LATITUDE \<noteq> 0) = (bit w 7 \<and> bit c 7)"
  by (rule gate_bit) (simp add: mask_defs)
lemma gate_LONGITUDE: "((w AND (c AND OUT_ALL)) AND LONGITUDE \<noteq> 0) = (bit w 8 \<and> bit c 8)"
  by (rule gate_bit) (simp add: mask_defs)
lemma gate_AZIMUTH: "((w AND (c AND OUT_ALL)) AND AZIMUTH \<noteq> 0) = (bit w 9 \<and> bit c 9)"
  by (rule gate_bit) (simp add: mask_defs)
lemma gate_DISTANCE: "((w AND (c AND OUT_ALL)) AND DISTANCE \<noteq> 0) = (bit w 10 \<and> bit c 10)"
  by (rule gate_bit) (simp add: mask_defs)
lemma gate_REDUCEDLENGTH: "((w AND (c AND OUT_ALL)) AND REDUCEDLENGTH \<noteq> 0) = (bit w 12 \<and> bit c 12)"
  by (rule gate_bit) (simp add: mask_defs)
lemma gate_GEODESICSCALE: "((w AND (c AND OUT_ALL)) AND GEODESICSCALE \<noteq> 0) = (bit w 13 \<and> bit c 13)"
  by (rule gate_bit) (simp add: mask_defs)
lemma gate_AREA: "((w AND (c AND OUT_ALL)) AND AREA \<noteq> 0) = (bit w 14 \<and> bit c 14)"
  by (rule gate_bit) (simp add: mask_defs)

lemmas gate_simps = gate_LATITUDE gate_LONGITUDE gate_AZIMUTH gate_DISTANCE
  gate_REDUCEDLENGTH gate_GEODESICSCALE gate_AREA

lemma gate_DISTANCE_IN: "((c AND DISTANCE_IN) AND OUT_ALL \<noteq> 0) = bit c 11"
proof -
  have "DISTANCE_IN AND OUT_ALL = 2 ^ 11" by (simp add: mask_defs)
  then have e: "(c AND DISTANCE_IN) AND OUT_ALL = c AND 2 ^ 11" by (simp add: and.assoc)
  show ?thesis unfolding e and_exp_eq_0_iff_not_bit by simp
qed

lemma bit_LATITUDE: "bit LATITUDE n = (n = 7)"
proof -
  have e: "LATITUDE = 2 ^ 7" by (simp add: mask_defs)
  show ?thesis unfolding e bit_exp_iff by auto
qed

lemma bit_AZIMUTH: "bit AZIMUTH n = (n = 9)"
proof -
  have e: "AZIMUTH = 2 ^ 9" by (simp add: mask_defs)
  show ?thesis unfolding e bit_exp_iff by auto
qed

lemma ctor_caps_bits:
  "bit (caps OR LATITUDE OR AZIMUTH) n = (bit (caps :: unsigned) n \<or> n = 7 \<or> n = 9)"
  unfolding bit_or_iff bit_LATITUDE bit_AZIMUTH by simp

lemma gate_RG:
  "((w AND (c AND OUT_ALL)) AND (REDUCEDLENGTH OR GEODESICSCALE) \<noteq> 0) =
   (bit w 12 \<and> bit c 12 \<or> bit w 13 \<and> bit c 13)"
  unfolding bit.conj_disj_distrib or_eq_0_iff de_Morgan_conj gate_simps by simp

lemma gate_DRG:
  "((w AND (c AND OUT_ALL)) AND (DISTANCE OR REDUCEDLENGTH OR GEODESICSCALE) \<noteq> 0) =
   (bit w 10 \<and> bit c 10 \<or> bit w 12 \<and> bit c 12 \<or> bit w 13 \<and> bit c 13)"
  unfolding bit.conj_disj_distrib or_eq_0_iff de_Morgan_conj gate_simps by simp

lemma test_LATITUDE: "(w AND LATITUDE \<noteq> 0) = bit w 7"
proof -
  have e: "LATITUDE = 2 ^ 7" by (simp add: mask_defs)
  show ?thesis unfolding e and_exp_eq_0_iff_not_bit by simp
qed

lemma test_AZIMUTH: "(w AND AZIMUTH \<noteq> 0) = bit w 9"
proof -
  have e: "AZIMUTH = 2 ^ 9" by (simp add: mask_defs)
  show ?thesis unfolding e and_exp_eq_0_iff_not_bit by simp
qed

lemma bits_NONE_caps:
  "\<not> bit (NONE OR LATITUDE OR AZIMUTH) 8" "\<not> bit (NONE OR LATITUDE OR AZIMUTH) 10"
  "\<not> bit (NONE OR LATITUDE OR AZIMUTH) 11" "\<not> bit (NONE OR LATITUDE OR AZIMUTH) 12"
  "\<not> bit (NONE OR LATITUDE OR AZIMUTH) 13" "\<not> bit (NONE OR LATITUDE OR AZIMUTH) 14"
  "bit (NONE OR LATITUDE OR AZIMUTH) 7" "bit (NONE OR LATITUDE OR AZIMUTH) 9"
  by (simp_all add: ctor_caps_bits) (simp_all add: NONE_def)

lemma bits_DISTANCE_low: "\<not> bit DISTANCE 7" "\<not> bit DISTANCE 9"
  by (simp_all add: mask_defs bit_or_iff bit_push_bit_iff bit_1_iff)

lemma bits_DISTANCE: "bit DISTANCE 10" "bit (DISTANCE OR LATITUDE OR AZIMUTH) 10"
  "\<not> bit (DISTANCE OR LATITUDE OR AZIMUTH) 11"
  by (simp_all add: mask_defs bit_or_iff bit_push_bit_iff bit_1_iff)

lemma NONE_caps:
  "(NONE OR LATITUDE OR AZIMUTH) AND CAP_C1 = 0"
  "(NONE OR LATITUDE OR AZIMUTH) AND CAP_C1p = 0"
  "(NONE OR LATITUDE OR AZIMUTH) AND CAP_C2 = 0"
  "(NONE OR LATITUDE OR AZIMUTH) AND CAP_C3 = 0"
  "(NONE OR LATITUDE OR AZIMUTH) AND CAP_C4 = 0"
  by (simp_all add: mask_defs)

lemma DISTANCE_caps:
  "(DISTANCE OR LATITUDE OR AZIMUTH) AND CAP_C1 \<noteq> 0"
  "(DISTANCE OR LATITUDE OR AZIMUTH) AND CAP_C1p = 0"
  "(DISTANCE OR LATITUDE OR AZIMUTH) AND CAP_C2 = 0"
  "(DISTANCE OR LATITUDE OR AZIMUTH) AND CAP_C3 = 0"
  "(DISTANCE OR LATITUDE OR AZIMUTH) AND CAP_C4 = 0"
  by (simp_all add: mask_defs)

section \<open>Numbers\<close>

lemma degree_pos: "0 < degree" by (simp add: degree_def)
lemma deg90: "90 * degree = pi / 2" by (simp add: degree_def)
lemma deg180: "180 * degree = pi" by (simp add: degree_def)

lemma atan2_0_1: "atan2 0 1 = 0"
  by (simp add: atan2_def)

lemma AngRound_0: "AngRound 0 = 0" by (simp add: AngRound_def Let_def)
lemma AngNormalize_0: "AngNormalize 0 = 0" by (simp add: AngNormalize_def)
lemma hypot_1_0: "hypot 1 0 = 1" "hypot 0 1 = 1" by (simp_all add: hypot_def)
lemma SinCosNorm_0_1: "SinCosNorm (0, 1) = (0, 1)" by (simp add: SinCosNorm_def hypot_1_0)
lemma ctor_bet1_equator: "ctor_bet1 e f1 0 = (0, 1)"
  by (simp add: ctor_bet1_def ctor_bet1_raw_def SinCosNorm_0_1)

lemma cos_deg_pos:
  assumes "\<bar>lat1\<bar> < 90"
  shows "0 < cos (lat1 * degree)"
proof (rule cos_gt_zero_pi)
  from assms have "- 90 < lat1" "lat1 < 90" by auto
  then have "(- 90) * degree < lat1 * degree" "lat1 * degree < 90 * degree"
    using degree_pos by (simp_all only: mult_strict_right_mono)
  then show "- (pi / 2) < lat1 * degree" "lat1 * degree < pi / 2"
    using deg90 by simp_all
qed

lemma hypot_pos: "0 < v \<Longrightarrow> 0 < hypot u v"
proof -
  assume "0 < v"
  then have "0 < v * v" by simp
  moreover have "0 \<le> u * u" by simp
  ultimately have "0 < u * u + v * v" by linarith
  then show ?thesis by (simp add: hypot_def)
qed

section \<open>The constructor, block by block\<close>

lemma caps_ctor_C1: "l_caps (ctor_C1 E eps this) = l_caps this" by (simp add: ctor_C1_def Let_def)
lemma caps_ctor_C1p: "l_caps (ctor_C1p E eps this) = l_caps this" by (simp add: ctor_C1p_def)
lemma caps_ctor_C2: "l_caps (ctor_C2 E eps this) = l_caps this" by (simp add: ctor_C2_def Let_def)
lemma caps_ctor_C3: "l_caps (ctor_C3 E g eps this) = l_caps this" by (simp add: ctor_C3_def Let_def)
lemma caps_ctor_C4: "l_caps (ctor_C4 E g this) = l_caps this" by (simp add: ctor_C4_def Let_def)

lemma caps_ctor_base:
  "l_caps (ctor_base E g lat1 lon1 azi1 caps storage) = caps OR LATITUDE OR AZIMUTH"
  by (simp add: ctor_base_def Let_def split_beta)

lemma caps_GeodesicLine_ctor:
  "l_caps (GeodesicLine_ctor E g lat1 lon1 azi1 caps storage) = caps OR LATITUDE OR AZIMUTH"
  by (simp add: GeodesicLine_ctor_def Let_def caps_ctor_C1 caps_ctor_C1p caps_ctor_C2
      caps_ctor_C3 caps_ctor_C4 caps_ctor_base)

lemma ctor_C1_skip: "l_caps t AND CAP_C1 = 0 \<Longrightarrow> ctor_C1 E eps t = t"
  by (simp add: ctor_C1_def)
lemma ctor_C1p_skip: "l_caps t AND CAP_C1p = 0 \<Longrightarrow> ctor_C1p E eps t = t"
  by (simp add: ctor_C1p_def)
lemma ctor_C2_skip: "l_caps t AND CAP_C2 = 0 \<Longrightarrow> ctor_C2 E eps t = t"
  by (simp add: ctor_C2_def)
lemma ctor_C3_skip: "l_caps t AND CAP_C3 = 0 \<Longrightarrow> ctor_C3 E g eps t = t"
  by (simp add: ctor_C3_def)
lemma ctor_C4_skip: "l_caps t AND CAP_C4 = 0 \<Longrightarrow> ctor_C4 E g t = t"
  by (simp add: ctor_C4_def)

lemma ctor_bet1_raw_pos:
  assumes "0 < eps2v" and "\<bar>lat1\<bar> \<le> 90"
  shows "0 < snd (ctor_bet1_raw eps2v f1 lat1)"
proof (cases "\<bar>lat1\<bar> = 90")
  case True
  with assms show ?thesis by (simp add: ctor_bet1_raw_def)
next
  case False
  with assms have "\<bar>lat1\<bar> < 90" by simp
  then have "0 < cos (lat1 * degree)" by (rule cos_deg_pos)
  with False show ?thesis by (simp add: ctor_bet1_raw_def Let_def)
qed

lemma snd_SinCosNorm_pos: "0 < snd sc \<Longrightarrow> 0 < snd (SinCosNorm sc)"
  using hypot_pos [of "snd sc" "fst sc"] by (simp add: SinCosNorm_def Let_def)

lemma salp_ctor_blocks:
  "l_salp0 (ctor_C1 E eps t) = l_salp0 t" "l_salp1 (ctor_C1 E eps t) = l_salp1 t"
  "l_salp0 (ctor_C1p E eps t) = l_salp0 t" "l_salp1 (ctor_C1p E eps t) = l_salp1 t"
  "l_salp0 (ctor_C2 E eps t) = l_salp0 t" "l_salp1 (ctor_C2 E eps t) = l_salp1 t"
  "l_salp0 (ctor_C3 E g eps t) = l_salp0 t" "l_salp1 (ctor_C3 E g eps t) = l_salp1 t"
  "l_salp0 (ctor_C4 E g t) = l_salp0 t" "l_salp1 (ctor_C4 E g t) = l_salp1 t"
  by (simp_all add: ctor_C1_def ctor_C1p_def ctor_C2_def ctor_C3_def ctor_C4_def Let_def)

lemma salp0_ctor_base:
  "l_salp0 (ctor_base E g lat1 lon1 azi1 caps storage) =
   l_salp1 (ctor_base E g lat1 lon1 azi1 caps storage) * snd (ctor_bet1 (eps2 E) (g_f1 g) lat1)"
  by (simp add: ctor_base_def Let_def split_beta)

lemma salp0_GeodesicLine_ctor:
  "l_salp0 (GeodesicLine_ctor E g lat1 lon1 azi1 caps storage) =
   l_salp1 (GeodesicLine_ctor E g lat1 lon1 azi1 caps storage) *
     snd (ctor_bet1 (eps2 E) (g_f1 g) lat1)"
  by (simp add: GeodesicLine_ctor_def Let_def salp_ctor_blocks salp0_ctor_base)

section \<open>Position, block by block\<close>

lemma Position_s12_fields:
  "o_lat2 (Position_s12 l arcmode a12 m V out) = o_lat2 out"
  "o_lon2 (Position_s12 l arcmode a12 m V out) = o_lon2 out"
  "o_azi2 (Position_s12 l arcmode a12 m V out) = o_azi2 out"
  "o_s12 (Position_s12 l arcmode a12 m V out) =
     (if m AND DISTANCE \<noteq> 0
      then (if arcmode then l_b l * ((1 + l_A1m1 l) * v_sig12 V + v_AB1 V) else a12)
      else o_s12 out)"
  "o_m12 (Position_s12 l arcmode a12 m V out) = o_m12 out"
  "o_M12 (Position_s12 l arcmode a12 m V out) = o_M12 out"
  "o_M21 (Position_s12 l arcmode a12 m V out) = o_M21 out"
  "o_S12 (Position_s12 l arcmode a12 m V out) = o_S12 out"
  by (simp_all add: Position_s12_def)

lemma Position_lon2_fields:
  "o_lat2 (Position_lon2 E l m V out) = o_lat2 out"
  "m AND LONGITUDE = 0 \<Longrightarrow> o_lon2 (Position_lon2 E l m V out) = o_lon2 out"
  "o_azi2 (Position_lon2 E l m V out) = o_azi2 out"
  "o_s12 (Position_lon2 E l m V out) = o_s12 out"
  "o_m12 (Position_lon2 E l m V out) = o_m12 out"
  "o_M12 (Position_lon2 E l m V out) = o_M12 out"
  "o_M21 (Position_lon2 E l m V out) = o_M21 out"
  "o_S12 (Position_lon2 E l m V out) = o_S12 out"
  by (simp_all add: Position_lon2_def Let_def)

lemma Position_lat2_fields:
  "o_lat2 (Position_lat2 l m V out) =
     (if m AND LATITUDE \<noteq> 0 then atan2 (v_sbet2 V) (l_f1 l * v_cbet2 V) / degree
      else o_lat2 out)"
  "o_lon2 (Position_lat2 l m V out) = o_lon2 out"
  "o_azi2 (Position_lat2 l m V out) = o_azi2 out"
  "o_s12 (Position_lat2 l m V out) = o_s12 out"
  "o_m12 (Position_lat2 l m V out) = o_m12 out"
  "o_M12 (Position_lat2 l m V out) = o_M12 out"
  "o_M21 (Position_lat2 l m V out) = o_M21 out"
  "o_S12 (Position_lat2 l m V out) = o_S12 out"
  by (simp_all add: Position_lat2_def)

lemma Position_azi2_fields:
  "o_lat2 (Position_azi2 m V out) = o_lat2 out"
  "o_lon2 (Position_azi2 m V out) = o_lon2 out"
  "o_azi2 (Position_azi2 m V out) =
     (if m AND AZIMUTH \<noteq> 0 then 0 - atan2 (- v_salp2 V) (v_calp2 V) / degree
      else o_azi2 out)"
  "o_s12 (Position_azi2 m V out) = o_s12 out"
  "o_m12 (Position_azi2 m V out) = o_m12 out"
  "o_M12 (Position_azi2 m V out) = o_M12 out"
  "o_M21 (Position_azi2 m V out) = o_M21 out"
  "o_S12 (Position_azi2 m V out) = o_S12 out"
  by (simp_all add: Position_azi2_def)

lemma Position_m12_fields:
  "o_lat2 (Position_m12 E l m V out) = o_lat2 out"
  "o_lon2 (Position_m12 E l m V out) = o_lon2 out"
  "o_azi2 (Position_m12 E l m V out) = o_azi2 out"
  "o_s12 (Position_m12 E l m V out) = o_s12 out"
  "m AND REDUCEDLENGTH = 0 \<Longrightarrow> o_m12 (Position_m12 E l m V out) = o_m12 out"
  "m AND GEODESICSCALE = 0 \<Longrightarrow> o_M12 (Position_m12 E l m V out) = o_M12 out"
  "m AND GEODESICSCALE = 0 \<Longrightarrow> o_M21 (Position_m12 E l m V out) = o_M21 out"
  "o_S12 (Position_m12 E l m V out) = o_S12 out"
  by (simp_all add: Position_m12_def Let_def)

lemma Position_S12_fields:
  "o_lat2 (Position_S12 E l m V out) = o_lat2 out"
  "o_lon2 (Position_S12 E l m V out) = o_lon2 out"
  "o_azi2 (Position_S12 E l m V out) = o_azi2 out"
  "o_s12 (Position_S12 E l m V out) = o_s12 out"
  "o_m12 (Position_S12 E l m V out) = o_m12 out"
  "o_M12 (Position_S12 E l m V out) = o_M12 out"
  "o_M21 (Position_S12 E l m V out) = o_M21 out"
  "m AND AREA = 0 \<Longrightarrow> o_S12 (Position_S12 E l m V out) = o_S12 out"
  by (simp_all add: Position_S12_def Let_def split: prod.split)

lemmas Position_fields = Position_s12_fields Position_lon2_fields Position_lat2_fields
  Position_azi2_fields Position_m12_fields Position_S12_fields

lemma Position_exit:
  "\<not> (Init E l \<and> (arcmode \<or> bit (l_caps l) 11)) \<Longrightarrow>
   Position E l arcmode a12 outmask out = (NaN, out)"
  by (simp add: Position_def gate_DISTANCE_IN)

lemma Position_run:
  "Init E l \<and> (arcmode \<or> bit (l_caps l) 11) \<Longrightarrow>
   Position E l arcmode a12 outmask out =
     (let m = outmask AND (l_caps l AND OUT_ALL);
          V = Position_locals E l arcmode a12 m
      in (Finite (if arcmode then a12 else v_sig12 V / degree),
          Position_S12 E l m V (Position_m12 E l m V (Position_azi2 m V
            (Position_lat2 l m V (Position_lon2 E l m V
              (Position_s12 l arcmode a12 m V out)))))))"
  by (simp add: Position_def gate_DISTANCE_IN Let_def)

lemma locals_sig12:
  "v_sig12 (Position_locals E l arcmode a12 m) = fst (Position_sig12 E l arcmode a12)"
  by (simp add: Position_locals_def Let_def split_beta)

lemma sig12_arc: "fst (Position_sig12 E l True a12) = a12 * degree"
  by (simp add: Position_sig12_def Let_def)

section \<open>The concrete line, evaluated\<close>

lemma north_base:
  "ctor_base sphere_externals sphere 0 0 0 caps blank_storage =
     blank_storage\<lparr>l_a := 6378137, l_b := 6378137, l_c2 := 40680631590769, l_f1 := 1,
       l_caps := caps OR LATITUDE OR AZIMUTH, l_calp1 := 1, l_calp0 := 1, l_csig1 := 1,
       l_comg1 := 1\<rparr>"
  by (simp add: ctor_base_def AngRound_0 AngNormalize_0 ctor_bet1_equator hypot_1_0
      SinCosNorm_0_1 sq_def sphere_def blank_storage_def)

lemma north_line_NONE:
  "north_line NONE =
     blank_storage\<lparr>l_a := 6378137, l_b := 6378137, l_c2 := 40680631590769, l_f1 := 1,
       l_caps := NONE OR LATITUDE OR AZIMUTH, l_calp1 := 1, l_calp0 := 1, l_csig1 := 1,
       l_comg1 := 1\<rparr>"
  by (simp add: north_line_def GeodesicLine_ctor_def north_base Let_def
      ctor_C1_skip ctor_C1p_skip ctor_C2_skip ctor_C3_skip ctor_C4_skip NONE_caps)

lemma north_C1:
  "ctor_C1 sphere_externals eps
     (blank_storage\<lparr>l_a := 6378137, l_b := 6378137, l_c2 := 40680631590769, l_f1 := 1,
       l_caps := DISTANCE OR LATITUDE OR AZIMUTH, l_calp1 := 1, l_calp0 := 1, l_csig1 := 1,
       l_comg1 := 1\<rparr>) =
     blank_storage\<lparr>l_a := 6378137, l_b := 6378137, l_c2 := 40680631590769, l_f1 := 1,
       l_caps := DISTANCE OR LATITUDE OR AZIMUTH, l_calp1 := 1, l_calp0 := 1, l_csig1 := 1,
       l_comg1 := 1, l_C1a := replicate 7 0, l_ctau1 := 1\<rparr>"
  by (simp add: ctor_C1_def DISTANCE_caps sphere_externals_def blank_storage_def)

lemma north_line_DISTANCE:
  "north_line DISTANCE =
     blank_storage\<lparr>l_a := 6378137, l_b := 6378137, l_c2 := 40680631590769, l_f1 := 1,
       l_caps := DISTANCE OR LATITUDE OR AZIMUTH, l_calp1 := 1, l_calp0 := 1, l_csig1 := 1,
       l_comg1 := 1, l_C1a := replicate 7 0, l_ctau1 := 1\<rparr>"
  by (simp add: north_line_def GeodesicLine_ctor_def north_base Let_def north_C1
      ctor_C1p_skip ctor_C2_skip ctor_C3_skip ctor_C4_skip DISTANCE_caps)

lemma not_Init_blank: "\<not> Init sphere_externals blank_storage"
  by (simp add: sphere_externals_def blank_storage_def)

lemma north_NONE_locals:
  "v_sbet2 (Position_locals sphere_externals (north_line NONE) True 0 m) = 0"
  "v_cbet2 (Position_locals sphere_externals (north_line NONE) True 0 m) = 1"
  "v_salp2 (Position_locals sphere_externals (north_line NONE) True 0 m) = 0"
  "v_calp2 (Position_locals sphere_externals (north_line NONE) True 0 m) = 1"
  by (simp_all add: Position_locals_def Position_sig12_def Let_def split_beta north_line_NONE
      blank_storage_def hypot_def)

lemma north_DISTANCE_locals:
  "v_sig12 (Position_locals sphere_externals (north_line DISTANCE) True 90 m) = pi / 2"
  "v_AB1 (Position_locals sphere_externals (north_line DISTANCE) True 90 m) = 0"
  by (simp_all add: Position_locals_def Position_sig12_def Let_def split_beta north_line_DISTANCE
      blank_storage_def deg90 sphere_externals_def)

lemma north_DISTANCE_fields:
  "l_b (north_line DISTANCE) = 6378137"
  "l_A1m1 (north_line DISTANCE) = 0"
  "l_caps (north_line DISTANCE) = DISTANCE OR LATITUDE OR AZIMUTH"
  by (simp_all add: north_line_DISTANCE blank_storage_def)

lemma north_NONE_fields:
  "l_f1 (north_line NONE) = 1"
  "l_caps (north_line NONE) = NONE OR LATITUDE OR AZIMUTH"
  by (simp_all add: north_line_NONE blank_storage_def)

lemma Init_north:
  "Init sphere_externals (north_line NONE)" "Init sphere_externals (north_line DISTANCE)"
proof -
  have "l_caps (north_line NONE) \<noteq> 0" "l_caps (north_line DISTANCE) \<noteq> 0"
    unfolding north_NONE_fields north_DISTANCE_fields by (simp_all add: mask_defs)
  then show "Init sphere_externals (north_line NONE)" "Init sphere_externals (north_line DISTANCE)"
    by (simp_all add: sphere_externals_def)
qed

section \<open>Properties of the angle utilities\<close>

text \<open>
  C5. For every angle in [-540, 540), AngNormalize returns a value in [-180, 180) that
  differs from the argument by -360, 0 or +360.
\<close>

theorem AngNormalize_range:
  assumes "-540 \<le> v" and "v < 540"
  shows "-180 \<le> AngNormalize v \<and> AngNormalize v < 180 \<and>
         AngNormalize v - v \<in> {-360, 0, 360}"
  using assms by (auto simp: AngNormalize_def)

theorem AngNormalize_range_witness:
  "(-540::real) \<le> 200 \<and> (200::real) < 540 \<and> AngNormalize 200 = -160 \<and>
   -180 \<le> AngNormalize 200 \<and> AngNormalize 200 < 180 \<and>
   AngNormalize 200 - 200 \<in> {-360, 0, 360}"
  using AngNormalize_range [of 200] by (simp add: AngNormalize_def)

section \<open>Properties of the intersection helpers\<close>

text \<open>
  C7. For segment lengths sx and sy (non-negative numbers) and every point p,
  segmentmode sx sy p is 3 kx + ky, where kx is -1 if the point's x is negative, 0 if it
  lies in [0, sx] and +1 if it exceeds sx, and ky likewise from y and sy. The mode is 0
  exactly when the point lies inside both segments.
\<close>

theorem segmentmode_spec:
  assumes "0 \<le> sx" and "0 \<le> sy"
  shows "(\<exists>kx ky. segmentmode sx sy p = 3 * kx + ky \<and>
            (xp_x p < 0 \<longrightarrow> kx = -1) \<and>
            (0 \<le> xp_x p \<and> xp_x p \<le> sx \<longrightarrow> kx = 0) \<and>
            (sx < xp_x p \<longrightarrow> kx = 1) \<and>
            (xp_y p < 0 \<longrightarrow> ky = -1) \<and>
            (0 \<le> xp_y p \<and> xp_y p \<le> sy \<longrightarrow> ky = 0) \<and>
            (sy < xp_y p \<longrightarrow> ky = 1)) \<and>
         (segmentmode sx sy p = 0 \<longleftrightarrow>
            (0 \<le> xp_x p \<and> xp_x p \<le> sx \<and> 0 \<le> xp_y p \<and> xp_y p \<le> sy))"
proof -
  define kx :: int where "kx = (if xp_x p < 0 then -1 else if xp_x p \<le> sx then 0 else 1)"
  define ky :: int where "ky = (if xp_y p < 0 then -1 else if xp_y p \<le> sy then 0 else 1)"
  have m: "segmentmode sx sy p = 3 * kx + ky"
    by (simp add: segmentmode_def kx_def ky_def)
  have kxs: "(xp_x p < 0 \<longrightarrow> kx = -1) \<and> (0 \<le> xp_x p \<and> xp_x p \<le> sx \<longrightarrow> kx = 0) \<and>
             (sx < xp_x p \<longrightarrow> kx = 1)"
    using assms(1) by (auto simp: kx_def)
  have kys: "(xp_y p < 0 \<longrightarrow> ky = -1) \<and> (0 \<le> xp_y p \<and> xp_y p \<le> sy \<longrightarrow> ky = 0) \<and>
             (sy < xp_y p \<longrightarrow> ky = 1)"
    using assms(2) by (auto simp: ky_def)
  have z: "(3 * kx + ky = 0) \<longleftrightarrow>
           (0 \<le> xp_x p \<and> xp_x p \<le> sx \<and> 0 \<le> xp_y p \<and> xp_y p \<le> sy)"
    by (auto simp: kx_def ky_def)
  from m kxs kys have "\<exists>kx ky. segmentmode sx sy p = 3 * kx + ky \<and>
            (xp_x p < 0 \<longrightarrow> kx = -1) \<and>
            (0 \<le> xp_x p \<and> xp_x p \<le> sx \<longrightarrow> kx = 0) \<and>
            (sx < xp_x p \<longrightarrow> kx = 1) \<and>
            (xp_y p < 0 \<longrightarrow> ky = -1) \<and>
            (0 \<le> xp_y p \<and> xp_y p \<le> sy \<longrightarrow> ky = 0) \<and>
            (sy < xp_y p \<longrightarrow> ky = 1)"
    by blast
  with m z show ?thesis by simp
qed

theorem segmentmode_spec_witness:
  "(0::real) \<le> 10 \<and> (0::real) \<le> 10 \<and>
   segmentmode 10 10 \<lparr>xp_x = 5, xp_y = 20, xp_c = 0\<rparr> = 3 * 0 + 1 \<and>
   segmentmode 10 10 \<lparr>xp_x = -1, xp_y = 3, xp_c = 0\<rparr> = 3 * (-1) + 0 \<and>
   segmentmode 10 10 \<lparr>xp_x = 5, xp_y = 3, xp_c = 0\<rparr> = 0"
  using segmentmode_spec [of 10 10 "\<lparr>xp_x = 5, xp_y = 3, xp_c = 0\<rparr>"]
  by (simp add: segmentmode_def)

subsection \<open>Rounding to double\<close>

lemma round_even_int: "round_even (real_of_int k) = k"
  by (simp add: round_even_def)

lemma round_even_minus: "round_even (- m) = - round_even m"
proof (cases "m = real_of_int \<lfloor>m\<rfloor>")
  case True
  then obtain k where "m = real_of_int k" by blast
  then have "round_even m = k" "round_even (- m) = - k"
    using round_even_int [of k] round_even_int [of "- k"] by simp_all
  then show ?thesis by simp
next
  case False
  have "real_of_int \<lfloor>m\<rfloor> \<le> m" by simp
  with False have "real_of_int \<lfloor>m\<rfloor> < m" by linarith
  moreover have "m < real_of_int \<lfloor>m\<rfloor> + 1" by linarith
  ultimately have fm: "\<lfloor>- m\<rfloor> = - \<lfloor>m\<rfloor> - 1"
    by (intro floor_unique) (simp_all, linarith+)
  define f where "f = \<lfloor>m\<rfloor>"
  define d where "d = m - real_of_int f"
  have d': "- m - real_of_int (- f - 1) = 1 - d" by (simp add: d_def)
  have ev: "even (- f - 1) \<longleftrightarrow> odd f" by simp
  show ?thesis
    unfolding round_even_def fm Let_def f_def [symmetric] d' d_def [symmetric]
    using ev by (auto simp: not_less)
qed

lemma round_double_minus: "round_double (- v) = - round_double v"
  by (simp add: round_double_def Let_def round_even_minus)

lemma round_double_eval:
  assumes "2 powr real_of_int e \<le> \<bar>v\<bar>" and "\<bar>v\<bar> < 2 powr (real_of_int e + 1)"
  shows "round_double v =
    2 powr (real_of_int e - 52) * real_of_int (round_even (v / 2 powr (real_of_int e - 52)))"
proof -
  have "0 < (2::real) powr real_of_int e" by simp
  with assms(1) have pos: "0 < \<bar>v\<bar>" by linarith
  then have "\<lfloor>log 2 \<bar>v\<bar>\<rfloor> = e"
    using assms by (simp add: floor_log_eq_powr_iff)
  moreover from pos have "v \<noteq> 0" by simp
  ultimately show ?thesis by (simp add: round_double_def Let_def)
qed

lemma round_double_small:
  "round_double 0 = 0" "round_double 1 = 1" "round_double 2 = 2" "round_double 3 = 3"
  "round_double 4 = 4"
  using round_double_eval [of 0 1] round_double_eval [of 1 2] round_double_eval [of 1 3]
    round_double_eval [of 2 4] round_even_int [of "2 ^ 52"] round_even_int [of "3 * 2 ^ 51"]
  by (simp_all add: powr_minus round_double_def)

lemma round_double_large:
  "round_double (2 ^ 53) = 2 ^ 53"
  "round_double (2 ^ 53 + 3) = 2 ^ 53 + 4"
  "round_double (2 ^ 53 + 6) = 2 ^ 53 + 6"
  "round_double (2 ^ 53 + 7) = 2 ^ 53 + 8"
  using round_double_eval [of 53 "2 ^ 53"] round_double_eval [of 53 "2 ^ 53 + 3"]
    round_double_eval [of 53 "2 ^ 53 + 6"] round_double_eval [of 53 "2 ^ 53 + 7"]
  by (simp_all add: round_even_def)

subsection \<open>The comparator\<close>

lemma SetComp_eq_sym:
  assumes "\<And>u. fl (- u) = - fl u"
  shows "SetComp_eq fl slop p q \<longleftrightarrow> SetComp_eq fl slop q p"
proof -
  have "fl (xp_x q - xp_x p) = - fl (xp_x p - xp_x q)"
    using assms [of "xp_x p - xp_x q"] by simp
  moreover have "fl (xp_y q - xp_y p) = - fl (xp_y p - xp_y q)"
    using assms [of "xp_y p - xp_y q"] by simp
  ultimately show ?thesis by (simp add: SetComp_eq_def d1_def)
qed

text \<open>
  C8, as the code has it. Two points whose L1 distance as the comparator computes it, with
  both differences and their sum rounded, is at most slop are ordered by SetComp in neither
  direction, that is, they compare equal. For a rounding that commutes with negation this
  fuzzy equality is symmetric. It is not transitive: for every positive slop such that
  slop and its double are left as they are by the rounding, there are three points, the
  first equal to the second and the second to the third, whose first and third do not
  compare equal (one is ordered before the other).
\<close>

theorem SetComp_fuzzy_equality:
  assumes "\<And>u. fl (- u) = - fl u"
  shows
  "(d1 fl (fl (xp_x p - xp_x q)) (fl (xp_y p - xp_y q)) \<le> slop \<longrightarrow>
      \<not> SetComp fl slop p q \<and> \<not> SetComp fl slop q p) \<and>
   (SetComp_eq fl slop p q \<longleftrightarrow> SetComp_eq fl slop q p) \<and>
   (0 < slop \<and> fl 0 = 0 \<and> fl slop = slop \<and> fl (2 * slop) = 2 * slop \<longrightarrow>
      (\<exists>u v w. SetComp_eq fl slop u v \<and> \<not> SetComp fl slop u v \<and> \<not> SetComp fl slop v u \<and>
               SetComp_eq fl slop v w \<and> \<not> SetComp fl slop v w \<and> \<not> SetComp fl slop w v \<and>
               \<not> SetComp_eq fl slop u w \<and> (SetComp fl slop u w \<or> SetComp fl slop w u)))"
proof (intro conjI impI)
  assume "d1 fl (fl (xp_x p - xp_x q)) (fl (xp_y p - xp_y q)) \<le> slop"
  then have e: "SetComp_eq fl slop p q" by (simp add: SetComp_eq_def)
  then show "\<not> SetComp fl slop p q" by (simp add: SetComp_def)
  from e have "SetComp_eq fl slop q p" using SetComp_eq_sym [where fl = fl, OF assms] by blast
  then show "\<not> SetComp fl slop q p" by (simp add: SetComp_def)
next
  show "SetComp_eq fl slop p q \<longleftrightarrow> SetComp_eq fl slop q p"
    by (rule SetComp_eq_sym [where fl = fl, OF assms])
next
  assume h: "0 < slop \<and> fl 0 = 0 \<and> fl slop = slop \<and> fl (2 * slop) = 2 * slop"
  let ?u = "\<lparr>xp_x = 0, xp_y = 0, xp_c = 0\<rparr>"
  let ?v = "\<lparr>xp_x = slop, xp_y = 0, xp_c = 0\<rparr>"
  let ?w = "\<lparr>xp_x = 2 * slop, xp_y = 0, xp_c = 0\<rparr>"
  from h have m: "fl (- slop) = - slop" "fl (- (2 * slop)) = - (2 * slop)"
    using assms [of slop] assms [of "2 * slop"] by simp_all
  from h m have uv: "SetComp_eq fl slop ?u ?v" and vw: "SetComp_eq fl slop ?v ?w"
    and uw: "\<not> SetComp_eq fl slop ?u ?w"
    by (simp_all add: SetComp_eq_def d1_def)
  from uv vw have vu: "SetComp_eq fl slop ?v ?u" and wv: "SetComp_eq fl slop ?w ?v"
    using SetComp_eq_sym [where fl = fl, OF assms] by blast+
  from h uw have "SetComp fl slop ?u ?w" by (simp add: SetComp_def)
  with h uv vw vu wv uw
  have "SetComp_eq fl slop ?u ?v \<and> \<not> SetComp fl slop ?u ?v \<and> \<not> SetComp fl slop ?v ?u \<and>
      SetComp_eq fl slop ?v ?w \<and> \<not> SetComp fl slop ?v ?w \<and> \<not> SetComp fl slop ?w ?v \<and>
      \<not> SetComp_eq fl slop ?u ?w \<and> (SetComp fl slop ?u ?w \<or> SetComp fl slop ?w ?u)"
    by (simp add: SetComp_def)
  then show "\<exists>u v w. SetComp_eq fl slop u v \<and> \<not> SetComp fl slop u v \<and> \<not> SetComp fl slop v u \<and>
      SetComp_eq fl slop v w \<and> \<not> SetComp fl slop v w \<and> \<not> SetComp fl slop w v \<and>
      \<not> SetComp_eq fl slop u w \<and> (SetComp fl slop u w \<or> SetComp fl slop w u)"
    by blast
qed

theorem SetComp_fuzzy_equality_witness:
  "(\<forall>u. round_double (- u) = - round_double u) \<and>
   d1 round_double
      (round_double (xp_x \<lparr>xp_x = 0, xp_y = 0, xp_c = 0\<rparr> - xp_x \<lparr>xp_x = 1, xp_y = 1, xp_c = 0\<rparr>))
      (round_double (xp_y \<lparr>xp_x = 0, xp_y = 0, xp_c = 0\<rparr> - xp_y \<lparr>xp_x = 1, xp_y = 1, xp_c = 0\<rparr>))
     \<le> 2 \<and>
   (0::real) < 2 \<and> round_double 0 = 0 \<and> round_double 2 = 2 \<and> round_double (2 * 2) = 2 * 2 \<and>
   \<not> SetComp round_double 2 \<lparr>xp_x = 0, xp_y = 0, xp_c = 0\<rparr> \<lparr>xp_x = 1, xp_y = 1, xp_c = 0\<rparr> \<and>
   \<not> SetComp round_double 2 \<lparr>xp_x = 1, xp_y = 1, xp_c = 0\<rparr> \<lparr>xp_x = 0, xp_y = 0, xp_c = 0\<rparr> \<and>
   (\<exists>u v w. SetComp_eq round_double 2 u v \<and> SetComp_eq round_double 2 v w \<and>
            \<not> SetComp_eq round_double 2 u w)"
proof -
  have m1: "round_double (- 1) = - 1"
    using round_double_minus [of 1] by (simp add: round_double_small)
  have h: "d1 round_double
      (round_double (xp_x \<lparr>xp_x = 0, xp_y = 0, xp_c = 0\<rparr> - xp_x \<lparr>xp_x = 1, xp_y = 1, xp_c = 0\<rparr>))
      (round_double (xp_y \<lparr>xp_x = 0, xp_y = 0, xp_c = 0\<rparr> - xp_y \<lparr>xp_x = 1, xp_y = 1, xp_c = 0\<rparr>))
     \<le> 2"
    by (simp add: d1_def m1 round_double_small)
  have r: "(0::real) < 2 \<and> round_double 0 = 0 \<and> round_double 2 = 2 \<and>
           round_double (2 * 2) = 2 * 2"
    by (simp add: round_double_small)
  note inst = SetComp_fuzzy_equality [of round_double "\<lparr>xp_x = 0, xp_y = 0, xp_c = 0\<rparr>"
      "\<lparr>xp_x = 1, xp_y = 1, xp_c = 0\<rparr>" 2, OF round_double_minus]
  from inst h have a: "\<not> SetComp round_double 2 \<lparr>xp_x = 0, xp_y = 0, xp_c = 0\<rparr>
        \<lparr>xp_x = 1, xp_y = 1, xp_c = 0\<rparr> \<and>
      \<not> SetComp round_double 2 \<lparr>xp_x = 1, xp_y = 1, xp_c = 0\<rparr> \<lparr>xp_x = 0, xp_y = 0, xp_c = 0\<rparr>"
    by blast
  from inst r have b: "\<exists>u v w. SetComp_eq round_double 2 u v \<and> SetComp_eq round_double 2 v w \<and>
      \<not> SetComp_eq round_double 2 u w"
    by blast
  from h r a b round_double_minus show ?thesis by blast
qed

text \<open>
  C8, as the claim states it, fails in double arithmetic. With \<open>slop = 2\<^sup>5\<^sup>3 + 6\<close>,
  \<open>p = (2\<^sup>5\<^sup>3, 3)\<close> and \<open>q = (-3, 0)\<close>, all of them doubles, the exact L1 distance
  \<open>|p.x - q.x| + |p.y - q.y|\<close> is \<open>slop\<close>; but the difference \<open>q.x - p.x\<close> rounds to
  \<open>-(2\<^sup>5\<^sup>3 + 4)\<close> and the sum to \<open>2\<^sup>5\<^sup>3 + 8\<close>, so the comparator orders \<open>q\<close> before
  \<open>p\<close>.
\<close>

theorem SetComp_exact_distance_counterexample:
  "round_double (2 ^ 53) = 2 ^ 53 \<and> round_double 3 = 3 \<and> round_double 0 = 0 \<and>
   round_double (2 ^ 53 + 6) = 2 ^ 53 + 6 \<and>
   \<bar>xp_x \<lparr>xp_x = 2 ^ 53, xp_y = 3, xp_c = 0\<rparr> - xp_x \<lparr>xp_x = - 3, xp_y = 0, xp_c = 0\<rparr>\<bar> +
   \<bar>xp_y \<lparr>xp_x = 2 ^ 53, xp_y = 3, xp_c = 0\<rparr> - xp_y \<lparr>xp_x = - 3, xp_y = 0, xp_c = 0\<rparr>\<bar>
     \<le> 2 ^ 53 + 6 \<and>
   SetComp round_double (2 ^ 53 + 6) \<lparr>xp_x = - 3, xp_y = 0, xp_c = 0\<rparr>
     \<lparr>xp_x = 2 ^ 53, xp_y = 3, xp_c = 0\<rparr>"
proof -
  note large = round_double_large [simplified]
  have "round_double (- (2 ^ 53 + 3)) = - (2 ^ 53 + 4)"
    using round_double_minus [of "2 ^ 53 + 3"] by (simp add: large)
  note a = this [simplified]
  have b: "round_double (- 3) = - 3"
    using round_double_minus [of 3] by (simp add: round_double_small)
  have "d1 round_double (round_double (- 3 - 2 ^ 53)) (round_double (0 - 3)) = 2 ^ 53 + 8"
    by (simp add: d1_def a b large)
  then have "SetComp round_double (2 ^ 53 + 6) \<lparr>xp_x = - 3, xp_y = 0, xp_c = 0\<rparr>
     \<lparr>xp_x = 2 ^ 53, xp_y = 3, xp_c = 0\<rparr>"
    by (simp add: SetComp_def SetComp_eq_def)
  then show ?thesis
    by (simp add: round_double_small large)
qed

section \<open>Properties of Position\<close>

text \<open>
  C1, as the code has it. When the line is initialised and the call is possible, Position
  returns the arc length in degrees in both modes: \<open>sig12 / degree\<close> when the input was a
  distance, and the input \<open>a12\<close> itself (which is \<open>sig12\<close> in degrees) when the input was
  an arc length. The distance \<open>s12\<close> in metres is never the returned value; it is written
  to the reference parameter \<open>s12\<close> when the DISTANCE bit is both in the mask passed and in
  the capabilities of the line: computed from \<open>sig12\<close> in arc mode, the input itself
  otherwise.
\<close>

theorem Position_returns_arc_length:
  assumes "Init E l \<and> (arcmode \<or> (l_caps l AND DISTANCE_IN) AND OUT_ALL \<noteq> 0)"
      and "V = Position_locals E l arcmode a12 (outmask AND (l_caps l AND OUT_ALL))"
  shows "fst (Position E l arcmode a12 outmask out) =
           Finite (if arcmode then a12 else v_sig12 V / degree) \<and>
         (arcmode \<longrightarrow> v_sig12 V = a12 * degree \<and> v_sig12 V / degree = a12) \<and>
         (bit outmask 10 \<and> bit (l_caps l) 10 \<longrightarrow>
            o_s12 (snd (Position E l arcmode a12 outmask out)) =
              (if arcmode then l_b l * ((1 + l_A1m1 l) * v_sig12 V + v_AB1 V) else a12))"
proof -
  from assms(1) have ok: "Init E l \<and> (arcmode \<or> bit (l_caps l) 11)"
    by (simp add: gate_DISTANCE_IN)
  note run = Position_run [OF ok, of a12 outmask out]
  have r: "fst (Position E l arcmode a12 outmask out) =
           Finite (if arcmode then a12 else v_sig12 V / degree)"
    by (simp add: run Let_def assms(2))
  have a: "arcmode \<longrightarrow> v_sig12 V = a12 * degree \<and> v_sig12 V / degree = a12"
    using degree_pos by (simp add: assms(2) locals_sig12 sig12_arc)
  have s: "bit outmask 10 \<and> bit (l_caps l) 10 \<longrightarrow>
            o_s12 (snd (Position E l arcmode a12 outmask out)) =
              (if arcmode then l_b l * ((1 + l_A1m1 l) * v_sig12 V + v_AB1 V) else a12)"
    by (simp add: run Let_def Position_fields gate_simps assms(2))
  from r a s show ?thesis by blast
qed

theorem Position_returns_arc_length_witness:
  "Init sphere_externals (north_line DISTANCE) \<and>
   bit DISTANCE 10 \<and> bit (l_caps (north_line DISTANCE)) 10 \<and>
   v_sig12 (Position_locals sphere_externals (north_line DISTANCE) True 90
      (DISTANCE AND (l_caps (north_line DISTANCE) AND OUT_ALL))) = 90 * degree \<and>
   fst (Position sphere_externals (north_line DISTANCE) True 90 DISTANCE stale_outputs) = Finite 90 \<and>
   o_s12 (snd (Position sphere_externals (north_line DISTANCE) True 90 DISTANCE stale_outputs)) =
     6378137 * (pi / 2)"
proof -
  have h: "Init sphere_externals (north_line DISTANCE) \<and>
           (True \<or> (l_caps (north_line DISTANCE) AND DISTANCE_IN) AND OUT_ALL \<noteq> 0)"
    by (simp add: Init_north)
  have b: "bit DISTANCE 10 \<and> bit (l_caps (north_line DISTANCE)) 10"
    by (simp add: bits_DISTANCE north_DISTANCE_fields)
  note inst = Position_returns_arc_length [OF h refl, of 90 DISTANCE stale_outputs]
  from inst b show ?thesis
    by (simp add: Init_north north_DISTANCE_fields north_DISTANCE_locals)
qed

text \<open>
  C1, as the claim states it, fails: on the sphere, for the line heading north from the
  equator built with the DISTANCE capability, the call in arc mode with \<open>a12 = 90\<close> returns
  90, the arc length it was given, while the distance, delivered in \<open>s12\<close>, is a quarter of
  the circumference.
\<close>

theorem Position_arc_returns_a12_not_s12:
  "fst (Position sphere_externals (north_line DISTANCE) True 90 DISTANCE stale_outputs) = Finite 90 \<and>
   o_s12 (snd (Position sphere_externals (north_line DISTANCE) True 90 DISTANCE stale_outputs))
     = 6378137 * (pi / 2) \<and>
   fst (Position sphere_externals (north_line DISTANCE) True 90 DISTANCE stale_outputs) \<noteq>
     Finite (o_s12 (snd (Position sphere_externals (north_line DISTANCE) True 90 DISTANCE
        stale_outputs)))"
proof -
  have ok: "Init sphere_externals (north_line DISTANCE) \<and> (True \<or> bit (l_caps (north_line DISTANCE)) 11)"
    by (simp add: Init_north)
  note run = Position_run [OF ok, of 90 DISTANCE stale_outputs]
  have r: "fst (Position sphere_externals (north_line DISTANCE) True 90 DISTANCE stale_outputs) = Finite 90"
    by (simp add: run Let_def)
  have s: "o_s12 (snd (Position sphere_externals (north_line DISTANCE) True 90 DISTANCE stale_outputs))
     = 6378137 * (pi / 2)"
    by (simp add: run Let_def Position_fields gate_simps north_DISTANCE_fields bits_DISTANCE
        north_DISTANCE_locals)
  have "6378137 * (pi / 2) > 90" using pi_ge_two by simp
  then have "Finite 90 \<noteq> Finite (6378137 * (pi / 2))" by simp
  with r s show ?thesis by simp
qed

text \<open>
  C3. On a line constructed with a capability mask that lacks the DISTANCE_IN output bit, a
  Position call that takes a distance (arcmode false) returns NaN; so does every Position
  call on a line for which \<open>Init\<close> does not hold. The value is returned in band: the call
  ends by the first return statement and leaves the reference parameters as they were.
\<close>

theorem Position_NaN_in_band:
  "((caps AND DISTANCE_IN) AND OUT_ALL = 0 \<longrightarrow>
      Position E (GeodesicLine_ctor E g lat1 lon1 azi1 caps storage) False a12 outmask out =
        (NaN, out)) \<and>
   (\<not> Init E l \<longrightarrow> Position E l arcmode a12 outmask out = (NaN, out))"
proof (intro conjI impI)
  assume "(caps AND DISTANCE_IN) AND OUT_ALL = 0"
  then have "\<not> bit caps 11"
    using gate_DISTANCE_IN [of caps] by simp
  then have "\<not> bit (l_caps (GeodesicLine_ctor E g lat1 lon1 azi1 caps storage)) 11"
    by (simp add: caps_GeodesicLine_ctor ctor_caps_bits)
  then show "Position E (GeodesicLine_ctor E g lat1 lon1 azi1 caps storage) False a12 outmask out
      = (NaN, out)"
    by (intro Position_exit) simp
next
  assume "\<not> Init E l"
  then show "Position E l arcmode a12 outmask out = (NaN, out)"
    by (intro Position_exit) simp
qed

theorem Position_NaN_in_band_witness:
  "(DISTANCE AND DISTANCE_IN) AND OUT_ALL = 0 \<and>
   Position sphere_externals (north_line DISTANCE) False 1000 ALL_mask stale_outputs =
     (NaN, stale_outputs) \<and>
   \<not> Init sphere_externals blank_storage \<and>
   Position sphere_externals blank_storage True 1000 ALL_mask stale_outputs =
     (NaN, stale_outputs)"
proof -
  have h1: "(DISTANCE AND DISTANCE_IN) AND OUT_ALL = 0" by (simp add: mask_defs)
  have h2: "\<not> Init sphere_externals blank_storage" by (rule not_Init_blank)
  note inst = Position_NaN_in_band [where caps = DISTANCE and E = sphere_externals
      and g = sphere and ?lat1.0 = 0 and ?lon1.0 = 0 and ?azi1.0 = 0 and storage = blank_storage
      and ?a12.0 = 1000 and outmask = ALL_mask and out = stale_outputs and l = blank_storage
      and arcmode = True]
  from inst h1 h2 show ?thesis by (simp add: north_line_def)
qed

text \<open>
  C9. Position writes a reference parameter only if the bit of its mask is both in the mask
  passed and in the capabilities of the line: \<open>lat2\<close> (bit 7), \<open>lon2\<close> (8), \<open>azi2\<close> (9),
  \<open>s12\<close> (10), \<open>m12\<close> (12), \<open>M12\<close> and \<open>M21\<close> (13), \<open>S12\<close> (14). Every other
  parameter holds after the call what it held before, and on the early exit, where NaN is
  returned, all eight do.
\<close>

theorem Position_frame:
  "(\<not> (bit outmask 7 \<and> bit (l_caps l) 7) \<longrightarrow>
      o_lat2 (snd (Position E l arcmode a12 outmask out)) = o_lat2 out) \<and>
   (\<not> (bit outmask 8 \<and> bit (l_caps l) 8) \<longrightarrow>
      o_lon2 (snd (Position E l arcmode a12 outmask out)) = o_lon2 out) \<and>
   (\<not> (bit outmask 9 \<and> bit (l_caps l) 9) \<longrightarrow>
      o_azi2 (snd (Position E l arcmode a12 outmask out)) = o_azi2 out) \<and>
   (\<not> (bit outmask 10 \<and> bit (l_caps l) 10) \<longrightarrow>
      o_s12 (snd (Position E l arcmode a12 outmask out)) = o_s12 out) \<and>
   (\<not> (bit outmask 12 \<and> bit (l_caps l) 12) \<longrightarrow>
      o_m12 (snd (Position E l arcmode a12 outmask out)) = o_m12 out) \<and>
   (\<not> (bit outmask 13 \<and> bit (l_caps l) 13) \<longrightarrow>
      o_M12 (snd (Position E l arcmode a12 outmask out)) = o_M12 out \<and>
      o_M21 (snd (Position E l arcmode a12 outmask out)) = o_M21 out) \<and>
   (\<not> (bit outmask 14 \<and> bit (l_caps l) 14) \<longrightarrow>
      o_S12 (snd (Position E l arcmode a12 outmask out)) = o_S12 out) \<and>
   (\<not> (Init E l \<and> (arcmode \<or> (l_caps l AND DISTANCE_IN) AND OUT_ALL \<noteq> 0)) \<longrightarrow>
      Position E l arcmode a12 outmask out = (NaN, out))"
proof (cases "Init E l \<and> (arcmode \<or> bit (l_caps l) 11)")
  case False
  then have "Position E l arcmode a12 outmask out = (NaN, out)"
    by (rule Position_exit)
  then show ?thesis by simp
next
  case True
  note run = Position_run [OF True, of a12 outmask out]
  have lat: "\<not> (bit outmask 7 \<and> bit (l_caps l) 7) \<Longrightarrow>
      o_lat2 (snd (Position E l arcmode a12 outmask out)) = o_lat2 out"
    by (auto simp add: run Let_def Position_fields gate_simps)
  have lon: "\<not> (bit outmask 8 \<and> bit (l_caps l) 8) \<Longrightarrow>
      o_lon2 (snd (Position E l arcmode a12 outmask out)) = o_lon2 out"
    using gate_LONGITUDE [of outmask "l_caps l"]
    by (auto simp add: run Let_def Position_fields)
  have azi: "\<not> (bit outmask 9 \<and> bit (l_caps l) 9) \<Longrightarrow>
      o_azi2 (snd (Position E l arcmode a12 outmask out)) = o_azi2 out"
    by (auto simp add: run Let_def Position_fields gate_simps)
  have s12: "\<not> (bit outmask 10 \<and> bit (l_caps l) 10) \<Longrightarrow>
      o_s12 (snd (Position E l arcmode a12 outmask out)) = o_s12 out"
    by (auto simp add: run Let_def Position_fields gate_simps)
  have m12: "\<not> (bit outmask 12 \<and> bit (l_caps l) 12) \<Longrightarrow>
      o_m12 (snd (Position E l arcmode a12 outmask out)) = o_m12 out"
    using gate_REDUCEDLENGTH [of outmask "l_caps l"]
    by (auto simp add: run Let_def Position_fields)
  have M: "\<not> (bit outmask 13 \<and> bit (l_caps l) 13) \<Longrightarrow>
      o_M12 (snd (Position E l arcmode a12 outmask out)) = o_M12 out \<and>
      o_M21 (snd (Position E l arcmode a12 outmask out)) = o_M21 out"
    using gate_GEODESICSCALE [of outmask "l_caps l"]
    by (auto simp add: run Let_def Position_fields)
  have S: "\<not> (bit outmask 14 \<and> bit (l_caps l) 14) \<Longrightarrow>
      o_S12 (snd (Position E l arcmode a12 outmask out)) = o_S12 out"
    using gate_AREA [of outmask "l_caps l"]
    by (auto simp add: run Let_def Position_fields)
  from True have "Init E l \<and> (arcmode \<or> (l_caps l AND DISTANCE_IN) AND OUT_ALL \<noteq> 0)"
    by (simp add: gate_DISTANCE_IN)
  with lat lon azi s12 m12 M S show ?thesis by blast
qed

theorem Position_frame_witness:
  "\<not> (bit DISTANCE 7 \<and> bit (l_caps (north_line NONE)) 7) \<and>
   \<not> (bit DISTANCE 10 \<and> bit (l_caps (north_line NONE)) 10) \<and>
   snd (Position sphere_externals (north_line NONE) True 180 DISTANCE stale_outputs) =
     stale_outputs \<and>
   \<not> (Init sphere_externals (north_line NONE) \<and>
       (False \<or> (l_caps (north_line NONE) AND DISTANCE_IN) AND OUT_ALL \<noteq> 0)) \<and>
   Position sphere_externals (north_line NONE) False 180 ALL_mask stale_outputs =
     (NaN, stale_outputs)"
proof -
  have c: "l_caps (north_line NONE) = NONE OR LATITUDE OR AZIMUTH"
    by (rule north_NONE_fields)
  have h: "\<not> (bit DISTANCE 7 \<and> bit (l_caps (north_line NONE)) 7)"
          "\<not> (bit DISTANCE 8 \<and> bit (l_caps (north_line NONE)) 8)"
          "\<not> (bit DISTANCE 9 \<and> bit (l_caps (north_line NONE)) 9)"
          "\<not> (bit DISTANCE 10 \<and> bit (l_caps (north_line NONE)) 10)"
          "\<not> (bit DISTANCE 12 \<and> bit (l_caps (north_line NONE)) 12)"
          "\<not> (bit DISTANCE 13 \<and> bit (l_caps (north_line NONE)) 13)"
          "\<not> (bit DISTANCE 14 \<and> bit (l_caps (north_line NONE)) 14)"
    by (simp_all add: c bits_NONE_caps bits_DISTANCE_low)
  have e: "\<not> (Init sphere_externals (north_line NONE) \<and>
       (False \<or> (l_caps (north_line NONE) AND DISTANCE_IN) AND OUT_ALL \<noteq> 0))"
    by (simp add: gate_DISTANCE_IN c bits_NONE_caps)
  from h Position_frame [of DISTANCE "north_line NONE" sphere_externals True 180 stale_outputs]
  have "snd (Position sphere_externals (north_line NONE) True 180 DISTANCE stale_outputs) =
     stale_outputs"
    by (intro outputs.equality) simp_all
  moreover from e
    Position_frame [of ALL_mask "north_line NONE" sphere_externals False 180 stale_outputs]
  have "Position sphere_externals (north_line NONE) False 180 ALL_mask stale_outputs =
     (NaN, stale_outputs)"
    by blast
  ultimately show ?thesis using h e by blast
qed

section \<open>Properties of the constructor\<close>

text \<open>
  C10. Whatever the argument \<open>caps\<close>, the constructor stores \<open>caps | LATITUDE | AZIMUTH\<close>.
  Hence on every constructed line a Position call that passes the initial check writes the
  latitude to \<open>lat2\<close> when the mask passed has LATITUDE, and the azimuth to \<open>azi2\<close> when it
  has AZIMUTH, whether or not these capabilities were asked for at construction.
\<close>

theorem ctor_always_allows_latitude_azimuth:
  assumes "L = GeodesicLine_ctor E g lat1 lon1 azi1 caps storage"
      and "V = Position_locals E L arcmode a12 (outmask AND (l_caps L AND OUT_ALL))"
  shows "l_caps L = caps OR LATITUDE OR AZIMUTH \<and>
         (Init E L \<and> (arcmode \<or> (l_caps L AND DISTANCE_IN) AND OUT_ALL \<noteq> 0) \<longrightarrow>
            (outmask AND LATITUDE \<noteq> 0 \<longrightarrow>
               o_lat2 (snd (Position E L arcmode a12 outmask out)) =
                 atan2 (v_sbet2 V) (l_f1 L * v_cbet2 V) / degree) \<and>
            (outmask AND AZIMUTH \<noteq> 0 \<longrightarrow>
               o_azi2 (snd (Position E L arcmode a12 outmask out)) =
                 0 - atan2 (- v_salp2 V) (v_calp2 V) / degree))"
proof (intro conjI impI)
  show c: "l_caps L = caps OR LATITUDE OR AZIMUTH"
    by (simp add: assms(1) caps_GeodesicLine_ctor)
  have b: "bit (l_caps L) 7" "bit (l_caps L) 9"
    by (simp_all add: c ctor_caps_bits)
  {
    assume "Init E L \<and> (arcmode \<or> (l_caps L AND DISTANCE_IN) AND OUT_ALL \<noteq> 0)"
    then have ok: "Init E L \<and> (arcmode \<or> bit (l_caps L) 11)"
      by (simp add: gate_DISTANCE_IN)
    note run = Position_run [OF ok, of a12 outmask out]
    {
      assume "outmask AND LATITUDE \<noteq> 0"
      then have "bit outmask 7" by (simp add: test_LATITUDE)
      with b show "o_lat2 (snd (Position E L arcmode a12 outmask out)) =
                 atan2 (v_sbet2 V) (l_f1 L * v_cbet2 V) / degree"
        by (simp add: run Let_def Position_fields gate_simps assms(2))
    }
    {
      assume "outmask AND AZIMUTH \<noteq> 0"
      then have "bit outmask 9" by (simp add: test_AZIMUTH)
      with b show "o_azi2 (snd (Position E L arcmode a12 outmask out)) =
                 0 - atan2 (- v_salp2 V) (v_calp2 V) / degree"
        by (simp add: run Let_def Position_fields gate_simps assms(2))
    }
  }
qed

theorem ctor_always_allows_latitude_azimuth_witness:
  "l_caps (north_line NONE) = NONE OR LATITUDE OR AZIMUTH \<and>
   Init sphere_externals (north_line NONE) \<and>
   (LATITUDE OR AZIMUTH) AND LATITUDE \<noteq> 0 \<and>
   (LATITUDE OR AZIMUTH) AND AZIMUTH \<noteq> 0 \<and>
   o_lat2 (snd (Position sphere_externals (north_line NONE) True 0 (LATITUDE OR AZIMUTH)
      stale_outputs)) = 0 \<and>
   o_azi2 (snd (Position sphere_externals (north_line NONE) True 0 (LATITUDE OR AZIMUTH)
      stale_outputs)) = 0"
proof -
  have h: "Init sphere_externals (north_line NONE) \<and>
       (True \<or> (l_caps (north_line NONE) AND DISTANCE_IN) AND OUT_ALL \<noteq> 0)"
    by (simp add: Init_north)
  have m: "(LATITUDE OR AZIMUTH) AND LATITUDE \<noteq> 0" "(LATITUDE OR AZIMUTH) AND AZIMUTH \<noteq> 0"
    by (simp_all add: mask_defs)
  note inst = ctor_always_allows_latitude_azimuth [where E = sphere_externals and g = sphere
      and ?lat1.0 = 0 and ?lon1.0 = 0 and ?azi1.0 = 0 and caps = NONE and storage = blank_storage
      and arcmode = True and ?a12.0 = 0 and outmask = "LATITUDE OR AZIMUTH"
      and out = stale_outputs, OF refl refl, folded north_line_def]
  from inst h m show ?thesis
    by (simp add: north_NONE_locals north_NONE_fields atan2_0_1)
qed

text \<open>
  C4, as the code has it. For a latitude in [-90, 90] and a positive \<open>eps2\<close>, the cosine
  of the reduced latitude that the constructor computes, and from which it derives the
  stored \<open>salp0\<close>, is strictly positive. At the poles it is assigned \<open>eps2\<close> before the
  joint normalisation of sine and cosine, and is \<open>eps2 / hypot (f1 sin \<phi>, eps2)\<close> after
  it; no lower bound \<open>eps2\<close> is kept.
\<close>

theorem ctor_cbet1_positive:
  assumes "0 < eps2 E" and "\<bar>lat1\<bar> \<le> 90"
      and "cbet1 = snd (ctor_bet1 (eps2 E) (g_f1 g) lat1)"
  shows "0 < cbet1 \<and>
         l_salp0 (GeodesicLine_ctor E g lat1 lon1 azi1 caps storage) =
           l_salp1 (GeodesicLine_ctor E g lat1 lon1 azi1 caps storage) * cbet1 \<and>
         (\<bar>lat1\<bar> = 90 \<longrightarrow>
            snd (ctor_bet1_raw (eps2 E) (g_f1 g) lat1) = eps2 E \<and>
            cbet1 = eps2 E / hypot (g_f1 g * sin (lat1 * degree)) (eps2 E))"
proof -
  have "0 < snd (ctor_bet1 (eps2 E) (g_f1 g) lat1)"
    unfolding ctor_bet1_def using assms(1,2) by (intro snd_SinCosNorm_pos ctor_bet1_raw_pos)
  moreover have "\<bar>lat1\<bar> = 90 \<longrightarrow>
            snd (ctor_bet1_raw (eps2 E) (g_f1 g) lat1) = eps2 E \<and>
            snd (ctor_bet1 (eps2 E) (g_f1 g) lat1) =
              eps2 E / hypot (g_f1 g * sin (lat1 * degree)) (eps2 E)"
    by (simp add: ctor_bet1_def ctor_bet1_raw_def SinCosNorm_def Let_def)
  ultimately show ?thesis
    by (simp add: assms(3) salp0_GeodesicLine_ctor)
qed

theorem ctor_cbet1_positive_witness:
  "0 < eps2 sphere_externals \<and> \<bar>90 :: real\<bar> \<le> 90 \<and> \<bar>90 :: real\<bar> = 90 \<and>
   0 < snd (ctor_bet1 (eps2 sphere_externals) (g_f1 sphere) 90) \<and>
   snd (ctor_bet1_raw (eps2 sphere_externals) (g_f1 sphere) 90) = eps2 sphere_externals \<and>
   snd (ctor_bet1 (eps2 sphere_externals) (g_f1 sphere) 90) =
     eps2 sphere_externals / hypot 1 (eps2 sphere_externals)"
proof -
  have h1: "0 < eps2 sphere_externals" by (simp add: sphere_externals_def)
  have h2: "\<bar>90 :: real\<bar> \<le> 90" by simp
  note inst = ctor_cbet1_positive [OF h1 h2 refl, of sphere 0 0 NONE blank_storage]
  from inst h1 show ?thesis by (simp add: deg90 sphere_def)
qed

text \<open>
  C4, as the claim states it, fails. On a prolate ellipsoid with \<open>f = -1/2\<close>
  (\<open>f1 = 3/2\<close>) the cosine at latitude 90 is below \<open>eps2\<close> after normalisation; and the
  constructor, which does not check its latitude, yields a negative cosine for latitude 180.
\<close>

theorem ctor_cbet1_above_guard_counterexample:
  "snd (ctor_bet1 (eps2 sphere_externals) (3 / 2) 90) < eps2 sphere_externals \<and>
   snd (ctor_bet1 (eps2 sphere_externals) 1 180) < 0"
proof -
  define e :: real where "e = 1 / 2 ^ 511"
  have ee: "eps2 sphere_externals = e" by (simp add: sphere_externals_def e_def)
  have epos: "0 < e" by (simp add: e_def)
  have v: "snd (ctor_bet1 e (3 / 2) 90) = e / sqrt (9 / 4 + e * e)"
    by (simp add: ctor_bet1_def ctor_bet1_raw_def SinCosNorm_def Let_def hypot_def deg90)
  have "sqrt 1 < sqrt (9 / 4 + e * e)"
  proof (rule real_sqrt_less_mono)
    have "0 \<le> e * e" by simp
    then show "1 < 9 / 4 + e * e" by linarith
  qed
  then have "1 < sqrt (9 / 4 + e * e)" by simp
  with epos have "e / sqrt (9 / 4 + e * e) < e"
    by (simp add: divide_less_eq)
  with v have a: "snd (ctor_bet1 e (3 / 2) 90) < e" by simp
  have b: "snd (ctor_bet1 e 1 180) = - 1"
    by (simp add: ctor_bet1_def ctor_bet1_raw_def SinCosNorm_def Let_def hypot_def deg180)
  from a b show ?thesis unfolding ee by simp
qed

section \<open>Properties of the inverse solver on non-convergence\<close>

lemma funpow_Newton_shift:
  "(Newton_step L lam12 ^^ k) (Newton_step L lam12 a) = (Newton_step L lam12 ^^ Suc k) a"
  by (simp add: funpow_swap1)

lemma Newton_fail:
  "\<not> (\<exists>k<n. \<bar>Newton_dalp1 L lam12 ((Newton_step L lam12 ^^ k) a)\<bar> < tol) \<Longrightarrow>
   Newton L lam12 tol n a = ((Newton_step L lam12 ^^ n) a, False)"
proof (induction n arbitrary: a)
  case 0
  show ?case by simp
next
  case (Suc n)
  from Suc.prems have first: "\<not> \<bar>Newton_dalp1 L lam12 a\<bar> < tol"
    by (auto dest: spec [of _ 0])
  have rest: "\<not> (\<exists>k<n. \<bar>Newton_dalp1 L lam12
      ((Newton_step L lam12 ^^ k) (Newton_step L lam12 a))\<bar> < tol)"
  proof
    assume "\<exists>k<n. \<bar>Newton_dalp1 L lam12
      ((Newton_step L lam12 ^^ k) (Newton_step L lam12 a))\<bar> < tol"
    then obtain k where "k < n"
      and "\<bar>Newton_dalp1 L lam12 ((Newton_step L lam12 ^^ k) (Newton_step L lam12 a))\<bar> < tol"
      by blast
    then have "Suc k < Suc n"
      and "\<bar>Newton_dalp1 L lam12 ((Newton_step L lam12 ^^ Suc k) a)\<bar> < tol"
      by (simp_all only: funpow_Newton_shift Suc_less_eq)
    with Suc.prems show False by blast
  qed
  from Suc.IH [OF rest] first show ?case
    by (simp add: funpow_swap1)
qed

text \<open>
  C2, on the model of the inverse solver taken from the specification. Whenever none of the
  \<open>maxit = 50\<close> Newton updates falls below the tolerance, Inverse returns the outputs
  computed at the last iterate with \<open>a12\<close>, \<open>s12\<close> and \<open>m12\<close> negated and both azimuths
  reversed; the result is a value, nothing is thrown.
\<close>

theorem Inverse_divergence_signal:
  assumes "\<not> (\<exists>k<maxit. \<bar>Newton_dalp1 Lambda12 lam12
                ((Newton_step Lambda12 lam12 ^^ k) alp1)\<bar> < tol)"
      and "r = outputs_at ((Newton_step Lambda12 lam12 ^^ maxit) alp1)"
  shows "Inverse_spec Lambda12 outputs_at lam12 tol alp1 =
           \<lparr>r_a12 = - r_a12 r, r_s12 = - r_s12 r,
            r_azi1 = reverse_azimuth (r_azi1 r), r_azi2 = reverse_azimuth (r_azi2 r),
            r_m12 = - r_m12 r\<rparr>"
  using Newton_fail [OF assms(1)]
  by (simp add: Inverse_spec_def signal_divergence_def assms(2) Let_def)

theorem Inverse_divergence_signal_witness:
  "\<not> (\<exists>k<maxit. \<bar>Newton_dalp1 (\<lambda>a. (1, 1)) 0 ((Newton_step (\<lambda>a. (1, 1)) 0 ^^ k) 0)\<bar> < 1 / 2) \<and>
   Inverse_spec (\<lambda>a. (1, 1))
     (\<lambda>a. \<lparr>r_a12 = 90, r_s12 = 100, r_azi1 = 45, r_azi2 = -135, r_m12 = 50\<rparr>) 0 (1 / 2) 0 =
     \<lparr>r_a12 = - 90, r_s12 = - 100, r_azi1 = - 135, r_azi2 = 45, r_m12 = - 50\<rparr>"
proof -
  have h: "\<not> (\<exists>k<maxit. \<bar>Newton_dalp1 (\<lambda>a. (1, 1)) 0
      ((Newton_step (\<lambda>a. (1, 1)) 0 ^^ k) 0)\<bar> < 1 / 2)"
    by (simp add: Newton_dalp1_def)
  note inst = Inverse_divergence_signal [OF h refl,
      of "\<lambda>a. \<lparr>r_a12 = 90, r_s12 = 100, r_azi1 = 45, r_azi2 = -135, r_m12 = 50\<rparr>"]
  from inst h show ?thesis
    by (simp add: reverse_azimuth_def AngNormalize_def)
qed

end
